theory Spec2Isabelle
  imports Complex_Main "HOL-Library.Multiset" "HOL-Library.List_Lexorder" "HOL-Library.Char_ord"
begin

section \<open>Errors and arrays\<close>

text \<open>
  The fraud-classification notebook (\<^verbatim>\<open>transaction_fraud_classifier.ipynb\<close>) is Python on
  top of numpy, pandas and scikit-learn. Exceptions are values of \<open>error\<close>; a function that
  may raise returns \<open>error + 'a\<close> with \<open>Inl\<close> for the exception.
\<close>

datatype error = ValueError | KeyError | IndexError | AttributeError | TypeError | NotFittedError

text \<open>
  A 2-D numpy array: its shape and its rows. \<open>shape0\<close> is \<^verbatim>\<open>x.shape[0]\<close> (rows),
  \<open>shape1\<close> is \<^verbatim>\<open>x.shape[1]\<close> (columns); the shape is kept beside the rows because an
  array with no row still has a column count.
\<close>

record 'a ndarray =
  shape0 :: nat
  shape1 :: nat
  rows :: "'a list list"

definition wf_ndarray :: "'a ndarray \<Rightarrow> bool" where
  "wf_ndarray x \<longleftrightarrow>
     length (rows x) = shape0 x \<and> (\<forall>r \<in> set (rows x). length r = shape1 x)"

text \<open>\<^verbatim>\<open>x[:, col]\<close>: one column as a 1-D array.\<close>

definition column :: "'a ndarray \<Rightarrow> nat \<Rightarrow> 'a list" where
  "column x col = map (\<lambda>r. r ! col) (rows x)"

text \<open>\<^verbatim>\<open>np.unique(a)\<close> of a 1-D array: the sorted distinct values.\<close>

definition np_unique :: "'a::linorder list \<Rightarrow> 'a list" where
  "np_unique a = sort (remdups a)"

text \<open>
  \<^verbatim>\<open>np.hstack(arrays)\<close> of 2-D arrays: the rows side by side. An empty sequence and
  arrays of different row counts raise ValueError.
\<close>

definition np_hstack :: "'a ndarray list \<Rightarrow> error + 'a ndarray" where
  "np_hstack arrays =
     (case arrays of
        [] \<Rightarrow> Inl ValueError
      | a # _ \<Rightarrow>
          if \<exists>b \<in> set arrays. shape0 b \<noteq> shape0 a then Inl ValueError
          else Inr \<lparr>shape0 = shape0 a,
                    shape1 = sum_list (map shape1 arrays),
                    rows = map (\<lambda>i. concat (map (\<lambda>b. rows b ! i) arrays)) [0..<shape0 a]\<rparr>)"

section \<open>The label binarizer of scikit-learn\<close>

text \<open>
  \<^verbatim>\<open>sklearn.preprocessing.label_binarize(y, classes=classes)\<close> with its defaults
  (\<^verbatim>\<open>neg_label=0, pos_label=1, sparse_output=False\<close>), for a 1-D array \<open>y\<close> of labels of one
  totally ordered type (strings in the notebook). The library is not part of the
  repository; the definitions follow its implementation:
  \<^item> an empty \<open>y\<close> is refused by \<^verbatim>\<open>check_array\<close> (ValueError);
  \<^item> \<^verbatim>\<open>type_of_target(y)\<close> is "multiclass" when \<open>y\<close> has more than two distinct values
    and "binary" otherwise (labels that are floats with a fractional part, for which
    scikit-learn reports a continuous target and raises ValueError, are outside the
    model);
  \<^item> a binary target with one class gives one column of zeros;
  \<^item> a binary target with three or more classes is treated as multiclass;
  \<^item> the indicator matrix has one column per class, in the order of \<open>classes\<close>, with a 1
    where the label equals the class;
  \<^item> for a binary target only the last column is returned
    (\<^verbatim>\<open>Y[:, -1].reshape((-1, 1))\<close>, an IndexError when there is no column).
\<close>

datatype target_type = Binary | Multiclass

definition type_of_target :: "'a list \<Rightarrow> target_type" where
  "type_of_target y = (if length (remdups y) > 2 then Multiclass else Binary)"

definition indicator_row :: "'a list \<Rightarrow> 'a \<Rightarrow> int list" where
  "indicator_row classes v = map (\<lambda>c. if v = c then 1 else 0) classes"

definition label_binarize :: "'a list \<Rightarrow> 'a list \<Rightarrow> error + int ndarray" where
  "label_binarize y classes =
     (let n_samples = length y; n_classes = length classes; y_type = type_of_target y in
      if n_samples = 0 then Inl ValueError
      else if y_type = Binary \<and> n_classes = 1 then
        Inr \<lparr>shape0 = n_samples, shape1 = 1, rows = replicate n_samples [0]\<rparr>
      else
        let y_type = (if y_type = Binary \<and> n_classes \<ge> 3 then Multiclass else y_type);
            Y = map (indicator_row classes) y
        in if y_type = Binary then
             (if n_classes = 0 then Inl IndexError
              else Inr \<lparr>shape0 = n_samples, shape1 = 1, rows = map (\<lambda>r. [last r]) Y\<rparr>)
           else Inr \<lparr>shape0 = n_samples, shape1 = n_classes, rows = Y\<rparr>)"

section \<open>MyLabelBinarizer\<close>

text \<open>
  \<^verbatim>\<open>
  class MyLabelBinarizer(BaseEstimator, TransformerMixin):
      def fit(self, x, y=None):
          return self
      def transform(self, x, y=None):
          transformations = []
          for col in range(x.shape[1]):
              transformations.append(label_binarize(x[:,col],classes=np.unique(x[:,col])))
          return np.hstack(transformations)
  \<close>
  The class has no field, so \<open>fit\<close> has nothing to return but the object itself and
  \<open>transform\<close> is a function of \<open>x\<close> alone. The loop over the columns stops at the first
  exception.
\<close>

fun binarize_columns :: "'a::linorder ndarray \<Rightarrow> nat list \<Rightarrow> int ndarray list
    \<Rightarrow> error + int ndarray list" where
  "binarize_columns x [] transformations = Inr transformations"
| "binarize_columns x (col # cols) transformations =
     (case label_binarize (column x col) (np_unique (column x col)) of
        Inl e \<Rightarrow> Inl e
      | Inr t \<Rightarrow> binarize_columns x cols (transformations @ [t]))"

definition MyLabelBinarizer_transform :: "'a::linorder ndarray \<Rightarrow> error + int ndarray" where
  "MyLabelBinarizer_transform x =
     (case binarize_columns x [0..<shape1 x] [] of
        Inl e \<Rightarrow> Inl e
      | Inr transformations \<Rightarrow> np_hstack transformations)"

section \<open>Data frames\<close>

text \<open>
  A pandas DataFrame: the row labels (\<open>df_index\<close>) and the columns in order, each with
  its name, its dtype and one value per row. The cell type \<open>'v\<close> is left open; the
  classes below are written against the DataFrame interface only.
\<close>

datatype dtype = Int64 | Float64 | Bool | Datetime64 | Object | Category

record 'v column =
  col_name :: string
  col_dtype :: dtype
  col_vals :: "'v list"

record 'v dataframe =
  df_index :: "nat list"
  df_columns :: "'v column list"

text \<open>
  A well-formed frame: every column holds one value per row label, and the column names
  are distinct (a record is a mapping from column name to value).
\<close>

definition wf_dataframe :: "'v dataframe \<Rightarrow> bool" where
  "wf_dataframe df \<longleftrightarrow>
     distinct (map col_name (df_columns df)) \<and>
     (\<forall>c \<in> set (df_columns df). length (col_vals c) = length (df_index df))"

text \<open>\<^verbatim>\<open>list(df.columns)\<close>: the column names in order.\<close>

definition columns :: "'v dataframe \<Rightarrow> string list" where
  "columns df = map col_name (df_columns df)"

text \<open>
  \<^verbatim>\<open>df.select_dtypes(include=dtypes)\<close> and \<^verbatim>\<open>df.select_dtypes(exclude=dtypes)\<close>: the
  columns whose dtype is, respectively is not, one of \<open>dtypes\<close>.
\<close>

definition select_dtypes_include :: "dtype list \<Rightarrow> 'v dataframe \<Rightarrow> 'v dataframe" where
  "select_dtypes_include dtypes df =
     df\<lparr>df_columns := filter (\<lambda>c. col_dtype c \<in> set dtypes) (df_columns df)\<rparr>"

definition select_dtypes_exclude :: "dtype list \<Rightarrow> 'v dataframe \<Rightarrow> 'v dataframe" where
  "select_dtypes_exclude dtypes df =
     df\<lparr>df_columns := filter (\<lambda>c. col_dtype c \<notin> set dtypes) (df_columns df)\<rparr>"

text \<open>
  \<^verbatim>\<open>df[names]\<close> with a list of names: the columns carrying each name, in the order of
  \<open>names\<close>; a name that is not a column raises KeyError.
\<close>

definition getitem_list :: "'v dataframe \<Rightarrow> string list \<Rightarrow> error + 'v dataframe" where
  "getitem_list df names =
     (if \<exists>n \<in> set names. n \<notin> set (columns df) then Inl KeyError
      else Inr (df\<lparr>df_columns :=
                  concat (map (\<lambda>n. filter (\<lambda>c. col_name c = n) (df_columns df)) names)\<rparr>))"

text \<open>\<^verbatim>\<open>df.values\<close>: the cells as a 2-D array, one row per record.\<close>

definition df_values :: "'v dataframe \<Rightarrow> 'v ndarray" where
  "df_values df =
     \<lparr>shape0 = length (df_index df),
      shape1 = length (df_columns df),
      rows = map (\<lambda>i. map (\<lambda>c. col_vals c ! i) (df_columns df)) [0..<length (df_index df)]\<rparr>"

text \<open>
  \<^verbatim>\<open>df.drop(labels, axis=1)\<close>: a new frame without the named columns; a label that is
  not a column raises KeyError.
\<close>

definition drop_columns :: "string list \<Rightarrow> 'v dataframe \<Rightarrow> error + 'v dataframe" where
  "drop_columns labels df =
     (if \<exists>l \<in> set labels. l \<notin> set (columns df) then Inl KeyError
      else Inr (df\<lparr>df_columns := filter (\<lambda>c. col_name c \<notin> set labels) (df_columns df)\<rparr>))"

text \<open>\<^verbatim>\<open>df.iloc[indices]\<close>: the rows at the given positions, with their labels.\<close>

definition take_rows :: "nat list \<Rightarrow> 'v dataframe \<Rightarrow> 'v dataframe" where
  "take_rows indices df =
     \<lparr>df_index = map (\<lambda>i. df_index df ! i) indices,
      df_columns = map (\<lambda>c. c\<lparr>col_vals := map (\<lambda>i. col_vals c ! i) indices\<rparr>) (df_columns df)\<rparr>"

text \<open>The records of a frame: each row label with the row's values.\<close>

definition df_rows :: "'v dataframe \<Rightarrow> (nat \<times> 'v list) list" where
  "df_rows df =
     map (\<lambda>i. (df_index df ! i, map (\<lambda>c. col_vals c ! i) (df_columns df)))
       [0..<length (df_index df)]"

section \<open>AttributeSelector\<close>

text \<open>
  \<^verbatim>\<open>
  class AttributeSelector(BaseEstimator, TransformerMixin):
      def __init__(self, quantitative = True):
          self.quantitative = quantitative
      def fit(self, X, y=None):
          return self
      def transform(self, X, y=None):
          if self.quantitative:
              self.attribute_names = list(X.select_dtypes(exclude=['object','category']).columns)
          else:
              self.attribute_names = list(X.select_dtypes(include=['object','category']).columns)
          return X[self.attribute_names].values
  \<close>
  The object is a record; \<open>attribute_names\<close> is \<open>None\<close> until \<open>transform\<close> assigns it.
  \<open>transform\<close> mutates the object, so it returns the updated object with the array.
\<close>

record AttributeSelector =
  quantitative :: bool
  attribute_names :: "string list option"

definition AttributeSelector_init :: "bool \<Rightarrow> AttributeSelector" where
  "AttributeSelector_init q = \<lparr>quantitative = q, attribute_names = None\<rparr>"

definition AttributeSelector_fit :: "AttributeSelector \<Rightarrow> 'v dataframe \<Rightarrow> AttributeSelector" where
  "AttributeSelector_fit self X = self"

text \<open>The frame the branch of \<open>transform\<close> selects, for the flag \<open>quantitative\<close>.\<close>

definition matching_columns :: "bool \<Rightarrow> 'v dataframe \<Rightarrow> 'v dataframe" where
  "matching_columns q X =
     (if q then select_dtypes_exclude [Object, Category] X
      else select_dtypes_include [Object, Category] X)"

definition AttributeSelector_transform ::
    "AttributeSelector \<Rightarrow> 'v dataframe \<Rightarrow> error + (AttributeSelector \<times> 'v ndarray)" where
  "AttributeSelector_transform self X =
     (let names = columns (matching_columns (quantitative self) X);
          self = self\<lparr>attribute_names := Some names\<rparr>
      in case getitem_list X names of
           Inl e \<Rightarrow> Inl e
         | Inr sub \<Rightarrow> Inr (self, df_values sub))"

text \<open>The names and dtypes of the columns of a frame, in order.\<close>

definition schema :: "'v dataframe \<Rightarrow> (string \<times> dtype) list" where
  "schema df = map (\<lambda>c. (col_name c, col_dtype c)) (df_columns df)"

section \<open>The preprocessing pipeline\<close>

text \<open>
  \<^verbatim>\<open>
  quant_pipeline = Pipeline([('selector',AttributeSelector()),
                             ('std_scaler',StandardScaler())])
  qual_pipeline = Pipeline([('selector',AttributeSelector(quantitative=False)),
                            ('label_binarizer',MyLabelBinarizer())])
  data_prep_pipeline = FeatureUnion(transformer_list=[('quant_pipeline',quant_pipeline),
                                                 ('qual_pipeline',qual_pipeline)])
  X_Prepared = data_prep_pipeline.fit_transform(ml_data.X_Train_DF)
  \<close>
  \<^verbatim>\<open>StandardScaler\<close>, \<^verbatim>\<open>Pipeline\<close> and \<^verbatim>\<open>FeatureUnion\<close> are scikit-learn's. The scaler is a
  parameter of the model: its \<^verbatim>\<open>fit\<close> computes a fitted state from an array and its
  \<^verbatim>\<open>transform\<close> applies a fitted state to an array, with whatever arithmetic it uses.
  The glue is scikit-learn's: \<^verbatim>\<open>TransformerMixin.fit_transform(X)\<close> is
  \<^verbatim>\<open>fit(X).transform(X)\<close>; a Pipeline's \<^verbatim>\<open>fit_transform\<close> runs \<^verbatim>\<open>fit_transform\<close> of
  each step on the output of the step before and its \<^verbatim>\<open>transform\<close> runs \<^verbatim>\<open>transform\<close> of
  each step; a FeatureUnion runs its transformers in order on the same input and
  stacks their outputs with \<^verbatim>\<open>np.hstack\<close>, which casts the integer indicators to the
  scaler's number type.
\<close>

record ('v, 's, 'n) scaler =
  scaler_fit :: "'v ndarray \<Rightarrow> error + 's"
  scaler_transform :: "'s \<Rightarrow> 'v ndarray \<Rightarrow> error + 'n ndarray"

text \<open>
  The mutable state of \<^verbatim>\<open>data_prep_pipeline\<close>: the two selectors and the scaler's fitted
  state (\<open>None\<close> before \<^verbatim>\<open>fit\<close>); MyLabelBinarizer has none.
\<close>

record 's data_prep_pipeline =
  quant_selector :: AttributeSelector
  std_scaler :: "'s option"
  qual_selector :: AttributeSelector

definition data_prep_pipeline_init :: "'s data_prep_pipeline" where
  "data_prep_pipeline_init =
     \<lparr>quant_selector = AttributeSelector_init True, std_scaler = None,
      qual_selector = AttributeSelector_init False\<rparr>"

definition astype :: "int ndarray \<Rightarrow> 'n::ring_1 ndarray" where
  "astype a = \<lparr>shape0 = shape0 a, shape1 = shape1 a, rows = map (map of_int) (rows a)\<rparr>"

definition quant_pipeline_fit_transform ::
    "('v, 's, 'n) scaler \<Rightarrow> 's data_prep_pipeline \<Rightarrow> 'v dataframe
      \<Rightarrow> error + ('s data_prep_pipeline \<times> 'n ndarray)" where
  "quant_pipeline_fit_transform sc p X =
     (case AttributeSelector_transform (AttributeSelector_fit (quant_selector p) X) X of
        Inl e \<Rightarrow> Inl e
      | Inr (sel, Xt) \<Rightarrow>
          (case scaler_fit sc Xt of
             Inl e \<Rightarrow> Inl e
           | Inr st \<Rightarrow>
               (case scaler_transform sc st Xt of
                  Inl e \<Rightarrow> Inl e
                | Inr Y \<Rightarrow> Inr (p\<lparr>quant_selector := sel, std_scaler := Some st\<rparr>, Y))))"

definition quant_pipeline_transform ::
    "('v, 's, 'n) scaler \<Rightarrow> 's data_prep_pipeline \<Rightarrow> 'v dataframe
      \<Rightarrow> error + ('s data_prep_pipeline \<times> 'n ndarray)" where
  "quant_pipeline_transform sc p X =
     (case AttributeSelector_transform (quant_selector p) X of
        Inl e \<Rightarrow> Inl e
      | Inr (sel, Xt) \<Rightarrow>
          (case std_scaler p of
             None \<Rightarrow> Inl NotFittedError
           | Some st \<Rightarrow>
               (case scaler_transform sc st Xt of
                  Inl e \<Rightarrow> Inl e
                | Inr Y \<Rightarrow> Inr (p\<lparr>quant_selector := sel\<rparr>, Y))))"

definition qual_pipeline_fit_transform ::
    "'s data_prep_pipeline \<Rightarrow> 'v::linorder dataframe
      \<Rightarrow> error + ('s data_prep_pipeline \<times> int ndarray)" where
  "qual_pipeline_fit_transform p X =
     (case AttributeSelector_transform (AttributeSelector_fit (qual_selector p) X) X of
        Inl e \<Rightarrow> Inl e
      | Inr (sel, Xt) \<Rightarrow>
          (case MyLabelBinarizer_transform Xt of
             Inl e \<Rightarrow> Inl e
           | Inr Y \<Rightarrow> Inr (p\<lparr>qual_selector := sel\<rparr>, Y)))"

definition qual_pipeline_transform ::
    "'s data_prep_pipeline \<Rightarrow> 'v::linorder dataframe
      \<Rightarrow> error + ('s data_prep_pipeline \<times> int ndarray)" where
  "qual_pipeline_transform p X =
     (case AttributeSelector_transform (qual_selector p) X of
        Inl e \<Rightarrow> Inl e
      | Inr (sel, Xt) \<Rightarrow>
          (case MyLabelBinarizer_transform Xt of
             Inl e \<Rightarrow> Inl e
           | Inr Y \<Rightarrow> Inr (p\<lparr>qual_selector := sel\<rparr>, Y)))"

definition data_prep_pipeline_fit_transform ::
    "('v::linorder, 's, 'n::ring_1) scaler \<Rightarrow> 's data_prep_pipeline \<Rightarrow> 'v dataframe
      \<Rightarrow> error + ('s data_prep_pipeline \<times> 'n ndarray)" where
  "data_prep_pipeline_fit_transform sc p X =
     (case quant_pipeline_fit_transform sc p X of
        Inl e \<Rightarrow> Inl e
      | Inr (p, Xquant) \<Rightarrow>
          (case qual_pipeline_fit_transform p X of
             Inl e \<Rightarrow> Inl e
           | Inr (p, Xqual) \<Rightarrow>
               (case np_hstack [Xquant, astype Xqual] of
                  Inl e \<Rightarrow> Inl e
                | Inr Y \<Rightarrow> Inr (p, Y))))"

definition data_prep_pipeline_transform ::
    "('v::linorder, 's, 'n::ring_1) scaler \<Rightarrow> 's data_prep_pipeline \<Rightarrow> 'v dataframe
      \<Rightarrow> error + ('s data_prep_pipeline \<times> 'n ndarray)" where
  "data_prep_pipeline_transform sc p X =
     (case quant_pipeline_transform sc p X of
        Inl e \<Rightarrow> Inl e
      | Inr (p, Xquant) \<Rightarrow>
          (case qual_pipeline_transform p X of
             Inl e \<Rightarrow> Inl e
           | Inr (p, Xqual) \<Rightarrow>
               (case np_hstack [Xquant, astype Xqual] of
                  Inl e \<Rightarrow> Inl e
                | Inr Y \<Rightarrow> Inr (p, Y))))"

text \<open>
  \<^verbatim>\<open>StandardScaler\<close> itself, over the reals standing for float64: \<^verbatim>\<open>fit\<close> keeps each
  column's mean (\<^verbatim>\<open>mean_\<close>) and its standard deviation (\<^verbatim>\<open>scale_\<close>; population variance; a zero deviation is
  replaced by 1), \<^verbatim>\<open>transform\<close> subtracts the mean and divides by the deviation. An array
  with no row or no column is refused (ValueError), as is a column count other than
  the fitted one.
\<close>

record scaler_state =
  scaler_mean :: "real list"
  scaler_scale :: "real list"

definition np_mean :: "real list \<Rightarrow> real" where
  "np_mean xs = sum_list xs / of_nat (length xs)"

definition np_var :: "real list \<Rightarrow> real" where
  "np_var xs = np_mean (map (\<lambda>x. (x - np_mean xs)\<^sup>2) xs)"

definition handle_zeros_in_scale :: "real \<Rightarrow> real" where
  "handle_zeros_in_scale s = (if s = 0 then 1 else s)"

definition StandardScaler_fit :: "real ndarray \<Rightarrow> error + scaler_state" where
  "StandardScaler_fit X =
     (if shape0 X = 0 \<or> shape1 X = 0 then Inl ValueError
      else Inr \<lparr>scaler_mean = map (\<lambda>j. np_mean (column X j)) [0..<shape1 X],
                scaler_scale = map (\<lambda>j. handle_zeros_in_scale (sqrt (np_var (column X j))))
                           [0..<shape1 X]\<rparr>)"

definition StandardScaler_transform :: "scaler_state \<Rightarrow> real ndarray \<Rightarrow> error + real ndarray" where
  "StandardScaler_transform st X =
     (if shape0 X = 0 \<or> shape1 X = 0 \<or> shape1 X \<noteq> length (scaler_mean st) then Inl ValueError
      else Inr \<lparr>shape0 = shape0 X, shape1 = shape1 X,
                rows = map (\<lambda>r. map (\<lambda>j. (r ! j - scaler_mean st ! j) / scaler_scale st ! j) [0..<shape1 X])
                         (rows X)\<rparr>)"

definition StandardScaler :: "(real, scaler_state, real) scaler" where
  "StandardScaler = \<lparr>scaler_fit = StandardScaler_fit, scaler_transform = StandardScaler_transform\<rparr>"

section \<open>Datasets\<close>

text \<open>
  \<^verbatim>\<open>
  class Datasets():
      def __init__(self,data,test_size=.25):
          self.original_data = data
          self.data = data.drop(['data_chunk','txOrder','fromId','toId'],axis=1)
          self.data.previousTxType.fillna('First',inplace=True)
          train_set, test_set = train_test_split(self.data,test_size=test_size,random_state=42)
          self.train_set = train_set.copy()
          self.test_set = test_set.copy()
          self.X_Train_DF = self.train_set.drop('fraudulentTx',axis=1)
          self.Y_Train = self.train_set['fraudulentTx'].copy()
          self.X_Test_DF = self.test_set.drop('fraudulentTx',axis=1)
          self.Y_Test = self.test_set['fraudulentTx'].copy()
  \<close>
  The cells of the transaction frame are numbers (rationals standing for float64 and
  int64), strings, or the missing value NaN.
\<close>

datatype cell = Num rat | is_Str: Str string | NaN

text \<open>
  Data frames are objects: a variable holds a reference, \<^verbatim>\<open>self.original_data = data\<close>
  copies the reference, and \<^verbatim>\<open>fillna(..., inplace=True)\<close> writes into the object. The
  store is the list of the frames allocated so far and a reference is a position in it;
  \<^verbatim>\<open>drop\<close> and \<^verbatim>\<open>copy\<close> allocate a new frame. The two frames that
  \<^verbatim>\<open>train_test_split\<close> returns are temporaries: only their copies are kept.
\<close>

type_synonym ref = nat

type_synonym store = "cell dataframe list"

definition alloc :: "store \<Rightarrow> cell dataframe \<Rightarrow> store \<times> ref" where
  "alloc h df = (h @ [df], length h)"

record series =
  ser_index :: "nat list"
  ser_vals :: "cell list"

record Datasets =
  original_data :: ref
  data :: ref
  train_set :: ref
  test_set :: ref
  X_Train_DF :: ref
  Y_Train :: series
  X_Test_DF :: ref
  Y_Test :: series

text \<open>
  \<^verbatim>\<open>df.previousTxType.fillna('First', inplace=True)\<close>, written for any column name and fill
  value: the attribute lookup raises AttributeError when the frame has no such column;
  the missing cells of the column are overwritten in the frame itself.
\<close>

definition fillna :: "cell \<Rightarrow> cell list \<Rightarrow> cell list" where
  "fillna v xs = map (\<lambda>x. if x = NaN then v else x) xs"

definition fillna_inplace :: "string \<Rightarrow> cell \<Rightarrow> cell dataframe \<Rightarrow> error + cell dataframe" where
  "fillna_inplace name v df =
     (if name \<notin> set (columns df) then Inl AttributeError
      else Inr (df\<lparr>df_columns :=
                  map (\<lambda>c. if col_name c = name then c\<lparr>col_vals := fillna v (col_vals c)\<rparr> else c)
                    (df_columns df)\<rparr>))"

text \<open>\<^verbatim>\<open>df[name]\<close> with one name: the column as a Series; KeyError when there is none.\<close>

definition getitem :: "cell dataframe \<Rightarrow> string \<Rightarrow> error + series" where
  "getitem df name =
     (case filter (\<lambda>c. col_name c = name) (df_columns df) of
        [] \<Rightarrow> Inl KeyError
      | c # _ \<Rightarrow> Inr \<lparr>ser_index = df_index df, ser_vals = col_vals c\<rparr>)"

text \<open>
  \<^verbatim>\<open>train_test_split(df, test_size=test_size, random_state=seed)\<close> of scikit-learn, for a
  fractional \<open>test_size\<close> (a rational standing for the float):
  \<^item> \<^verbatim>\<open>_validate_shuffle_split\<close>: \<open>test_size\<close> outside \<open>(0, 1)\<close> is a ValueError;
    \<open>n_test = ceil(test_size * n_samples)\<close>, \<open>n_train = n_samples - n_test\<close>; an empty train
    set is a ValueError;
  \<^item> \<^verbatim>\<open>ShuffleSplit\<close>: \<open>permutation = RandomState(seed).permutation(n_samples)\<close>, the test
    rows are its first \<open>n_test\<close> entries and the train rows the \<open>n_train\<close> after them;
  \<^item> both parts are taken with \<^verbatim>\<open>iloc\<close>.
  numpy's generator is the parameter \<open>permutation\<close>: the permutation it draws from a
  generator freshly seeded with \<open>seed\<close>, for \<open>n\<close> samples.
  The product \<open>test_size * n_samples\<close> is exact here, where scikit-learn rounds it in
  float64 before taking the ceiling: the sizes agree when the product is representable
  (as with the default 0.25) and may differ by one otherwise. An integer \<open>test_size\<close>,
  which scikit-learn reads as a number of rows, is outside the model.
\<close>

definition validate_shuffle_split :: "nat \<Rightarrow> rat \<Rightarrow> error + (nat \<times> nat)" where
  "validate_shuffle_split n_samples test_size =
     (if test_size \<le> 0 \<or> test_size \<ge> 1 then Inl ValueError
      else
        let n_test = nat \<lceil>test_size * of_nat n_samples\<rceil>;
            n_train = n_samples - n_test
        in if n_train = 0 then Inl ValueError else Inr (n_train, n_test))"

definition train_test_split ::
    "(nat \<Rightarrow> nat \<Rightarrow> nat list) \<Rightarrow> 'v dataframe \<Rightarrow> rat \<Rightarrow> nat
      \<Rightarrow> error + ('v dataframe \<times> 'v dataframe)" where
  "train_test_split permutation df test_size random_state =
     (let n_samples = length (df_index df) in
      case validate_shuffle_split n_samples test_size of
        Inl e \<Rightarrow> Inl e
      | Inr (n_train, n_test) \<Rightarrow>
          let perm = permutation random_state n_samples;
              ind_test = take n_test perm;
              ind_train = take n_train (drop n_test perm)
          in Inr (take_rows ind_train df, take_rows ind_test df))"

definition Datasets_init ::
    "(nat \<Rightarrow> nat \<Rightarrow> nat list) \<Rightarrow> store \<Rightarrow> ref \<Rightarrow> rat \<Rightarrow> error + (store \<times> Datasets)" where
  "Datasets_init permutation h input test_size =
     (case drop_columns [''data_chunk'', ''txOrder'', ''fromId'', ''toId''] (h ! input) of
        Inl e \<Rightarrow> Inl e
      | Inr dropped \<Rightarrow>
     let (h, self_data) = alloc h dropped in
     (case fillna_inplace ''previousTxType'' (Str ''First'') (h ! self_data) of
        Inl e \<Rightarrow> Inl e
      | Inr filled \<Rightarrow>
     let h = h[self_data := filled] in
     (case train_test_split permutation (h ! self_data) test_size 42 of
        Inl e \<Rightarrow> Inl e
      | Inr (train, test) \<Rightarrow>
     let (h, self_train_set) = alloc h train;
         (h, self_test_set) = alloc h test in
     (case drop_columns [''fraudulentTx''] (h ! self_train_set) of
        Inl e \<Rightarrow> Inl e
      | Inr x_train \<Rightarrow>
     let (h, self_X_Train_DF) = alloc h x_train in
     (case getitem (h ! self_train_set) ''fraudulentTx'' of
        Inl e \<Rightarrow> Inl e
      | Inr y_train \<Rightarrow>
     (case drop_columns [''fraudulentTx''] (h ! self_test_set) of
        Inl e \<Rightarrow> Inl e
      | Inr x_test \<Rightarrow>
     let (h, self_X_Test_DF) = alloc h x_test in
     (case getitem (h ! self_test_set) ''fraudulentTx'' of
        Inl e \<Rightarrow> Inl e
      | Inr y_test \<Rightarrow>
     Inr (h, \<lparr>original_data = input, data = self_data,
              train_set = self_train_set, test_set = self_test_set,
              X_Train_DF = self_X_Train_DF, Y_Train = y_train,
              X_Test_DF = self_X_Test_DF, Y_Test = y_test\<rparr>))))))))"

section \<open>prevTxFeatures\<close>

text \<open>
  \<^verbatim>\<open>
  def prevTxFeatures(data,lastK=7):
      for i in range(data.shape[0]):
          last7TxAmount = data.iloc[:i+1,2].tail(lastK)
          data.iloc[i,7] = last7TxAmount.min()
          data.iloc[i,8] = last7TxAmount.mean()
          data.iloc[i,9] = last7TxAmount.max()
      return(data)
  \<close>
  \<open>data\<close> holds the transactions of one client in the order of the query
  (\<^verbatim>\<open>ORDER BY id(c),txOrder\<close>); its columns are, by position, \<^verbatim>\<open>fromId, txType, txAmount,
  txOrder, fraudulentTx, toId, previousTxType, min7PrevTxAmount, mean7PrevTxAmount,
  max7PrevTxAmount, data_chunk\<close>. The function writes into the frame it is given and
  returns it; the model returns the updated frame.
\<close>

text \<open>\<^verbatim>\<open>data.iloc[:stop, j]\<close> and \<^verbatim>\<open>data.iloc[i, j] = v\<close>; a position out of range raises
  IndexError.\<close>

definition iloc_rows_col :: "'v dataframe \<Rightarrow> nat \<Rightarrow> nat \<Rightarrow> error + 'v list" where
  "iloc_rows_col df stop j =
     (if j < length (df_columns df) then Inr (take stop (col_vals (df_columns df ! j)))
      else Inl IndexError)"

definition iloc_set :: "'v dataframe \<Rightarrow> nat \<Rightarrow> nat \<Rightarrow> 'v \<Rightarrow> error + 'v dataframe" where
  "iloc_set df i j v =
     (if i < length (df_index df) \<and> j < length (df_columns df) then
        Inr (df\<lparr>df_columns :=
               (df_columns df)[j := (df_columns df ! j)\<lparr>col_vals := (col_vals (df_columns df ! j))[i := v]\<rparr>]\<rparr>)
      else Inl IndexError)"

text \<open>\<^verbatim>\<open>s.tail(k)\<close>: the last \<open>k\<close> entries.\<close>

definition tail :: "nat \<Rightarrow> 'a list \<Rightarrow> 'a list" where
  "tail k s = drop (length s - k) s"

text \<open>
  \<^verbatim>\<open>s.min()\<close>, \<^verbatim>\<open>s.mean()\<close>, \<^verbatim>\<open>s.max()\<close> of a numeric Series: missing values are skipped,
  and the result is NaN when nothing is left. The three are taken of the same window, and
  the mean of strings raises TypeError, so a window with a string ends the call with
  TypeError (which exception pandas raises there depends on its version; the amount
  column is numeric). The mean is the exact quotient, where pandas returns it rounded to
  float64.
\<close>

fun nums :: "cell list \<Rightarrow> rat list" where
  "nums [] = []"
| "nums (Num r # s) = r # nums s"
| "nums (_ # s) = nums s"

definition series_reduce :: "(rat list \<Rightarrow> rat) \<Rightarrow> cell list \<Rightarrow> error + cell" where
  "series_reduce f s =
     (if \<exists>x \<in> set s. is_Str x then Inl TypeError
      else if nums s = [] then Inr NaN
      else Inr (Num (f (nums s))))"

definition series_min :: "cell list \<Rightarrow> error + cell" where
  "series_min s = series_reduce (\<lambda>xs. Min (set xs)) s"

definition series_mean :: "cell list \<Rightarrow> error + cell" where
  "series_mean s = series_reduce (\<lambda>xs. sum_list xs / of_nat (length xs)) s"

definition series_max :: "cell list \<Rightarrow> error + cell" where
  "series_max s = series_reduce (\<lambda>xs. Max (set xs)) s"

text \<open>One pass of the loop body, for row \<open>i\<close>.\<close>

definition prevTxFeatures_step :: "nat \<Rightarrow> cell dataframe \<Rightarrow> nat \<Rightarrow> error + cell dataframe" where
  "prevTxFeatures_step lastK data_frame i =
     (case iloc_rows_col data_frame (i + 1) 2 of
        Inl e \<Rightarrow> Inl e
      | Inr amounts \<Rightarrow>
     let last7TxAmount = tail lastK amounts in
     (case series_min last7TxAmount of Inl e \<Rightarrow> Inl e | Inr mn \<Rightarrow>
     (case iloc_set data_frame i 7 mn of Inl e \<Rightarrow> Inl e | Inr data_frame \<Rightarrow>
     (case series_mean last7TxAmount of Inl e \<Rightarrow> Inl e | Inr av \<Rightarrow>
     (case iloc_set data_frame i 8 av of Inl e \<Rightarrow> Inl e | Inr data_frame \<Rightarrow>
     (case series_max last7TxAmount of Inl e \<Rightarrow> Inl e | Inr mx \<Rightarrow>
      iloc_set data_frame i 9 mx))))))"

fun prevTxFeatures_loop :: "nat \<Rightarrow> nat list \<Rightarrow> cell dataframe \<Rightarrow> error + cell dataframe" where
  "prevTxFeatures_loop lastK [] data_frame = Inr data_frame"
| "prevTxFeatures_loop lastK (i # rest) data_frame =
     (case prevTxFeatures_step lastK data_frame i of
        Inl e \<Rightarrow> Inl e
      | Inr data_frame \<Rightarrow> prevTxFeatures_loop lastK rest data_frame)"

definition prevTxFeatures :: "cell dataframe \<Rightarrow> nat \<Rightarrow> error + cell dataframe" where
  "prevTxFeatures data_frame lastK =
     prevTxFeatures_loop lastK [0..<length (df_index data_frame)] data_frame"

text \<open>
  The frame of one client, from the client's amounts in transaction order and the three
  feature columns; the columns the function does not read are filled with fixed values.
  \<open>client_frame\<close> is the frame as the notebook builds it before the call
  (\<^verbatim>\<open>graph.data.assign(min7PrevTxAmount=0.0,mean7PrevTxAmount=0.0,max7PrevTxAmount=0.0)\<close>,
  then \<^verbatim>\<open>data_chunk\<close>).
\<close>

definition client_frame_with ::
    "rat list \<Rightarrow> cell list \<Rightarrow> cell list \<Rightarrow> cell list \<Rightarrow> cell dataframe" where
  "client_frame_with amounts mins means maxs =
     (let n = length amounts; const = (\<lambda>v. replicate n v) in
      \<lparr>df_index = [0..<n],
       df_columns =
         [\<lparr>col_name = ''fromId'', col_dtype = Int64, col_vals = const (Num 1)\<rparr>,
          \<lparr>col_name = ''txType'', col_dtype = Object, col_vals = const (Str ''Payment'')\<rparr>,
          \<lparr>col_name = ''txAmount'', col_dtype = Float64, col_vals = map Num amounts\<rparr>,
          \<lparr>col_name = ''txOrder'', col_dtype = Int64, col_vals = map (\<lambda>i. Num (of_nat i)) [0..<n]\<rparr>,
          \<lparr>col_name = ''fraudulentTx'', col_dtype = Bool, col_vals = const (Num 0)\<rparr>,
          \<lparr>col_name = ''toId'', col_dtype = Int64, col_vals = const (Num 2)\<rparr>,
          \<lparr>col_name = ''previousTxType'', col_dtype = Object, col_vals = const NaN\<rparr>,
          \<lparr>col_name = ''min7PrevTxAmount'', col_dtype = Float64, col_vals = mins\<rparr>,
          \<lparr>col_name = ''mean7PrevTxAmount'', col_dtype = Float64, col_vals = means\<rparr>,
          \<lparr>col_name = ''max7PrevTxAmount'', col_dtype = Float64, col_vals = maxs\<rparr>,
          \<lparr>col_name = ''data_chunk'', col_dtype = Int64, col_vals = const (Num 1)\<rparr>]\<rparr>)"

definition client_frame :: "rat list \<Rightarrow> cell dataframe" where
  "client_frame amounts =
     (let zeros = replicate (length amounts) (Num 0) in
      client_frame_with amounts zeros zeros zeros)"

text \<open>The three feature cells of row \<open>i\<close> (columns 7, 8 and 9).\<close>

definition features_of :: "cell dataframe \<Rightarrow> nat \<Rightarrow> cell list" where
  "features_of df i = map (\<lambda>j. col_vals (df_columns df ! j) ! i) [7, 8, 9]"

text \<open>
  The amounts the loop body reads for row \<open>i\<close>, and the three values computed from them.
\<close>

definition window :: "nat \<Rightarrow> rat list \<Rightarrow> nat \<Rightarrow> rat list" where
  "window lastK amounts i = tail lastK (take (i + 1) amounts)"

definition window_features :: "nat \<Rightarrow> rat list \<Rightarrow> nat \<Rightarrow> cell list" where
  "window_features lastK amounts i =
     (let w = window lastK amounts i in
      [Num (Min (set w)), Num (sum_list w / of_nat (length w)), Num (Max (set w))])"

section \<open>Performance measures\<close>

text \<open>
  \<^verbatim>\<open>
  predictions = cross_val_predict(sgd_clf,X_Prepared,ml_data.Y_Train,cv=5)
  ml_conf_matrix = confusion_matrix(ml_data.Y_Train,predictions)
  performance_measures['precision'] = precision_score(ml_data.Y_Train,predictions)
  performance_measures['recall'] = recall_score(ml_data.Y_Train,predictions)
  \<close>
  The labels are the booleans of \<^verbatim>\<open>fraudulentTx\<close>; the positive class is \<open>True\<close>. The
  counts of the confusion matrix, with the notebook's layout (rows: observed negative,
  positive; columns: predicted negative, positive):
\<close>

definition count_pairs :: "bool \<Rightarrow> bool \<Rightarrow> bool list \<Rightarrow> bool list \<Rightarrow> nat" where
  "count_pairs t p y_true y_pred =
     length (filter (\<lambda>(a, b). a = t \<and> b = p) (zip y_true y_pred))"

definition TN :: "bool list \<Rightarrow> bool list \<Rightarrow> nat" where
  "TN y_true y_pred = count_pairs False False y_true y_pred"

definition FP :: "bool list \<Rightarrow> bool list \<Rightarrow> nat" where
  "FP y_true y_pred = count_pairs False True y_true y_pred"

definition FN :: "bool list \<Rightarrow> bool list \<Rightarrow> nat" where
  "FN y_true y_pred = count_pairs True False y_true y_pred"

definition TP :: "bool list \<Rightarrow> bool list \<Rightarrow> nat" where
  "TP y_true y_pred = count_pairs True True y_true y_pred"

text \<open>
  \<^verbatim>\<open>confusion_matrix(y_true, y_pred)\<close>: arrays of different lengths raise ValueError; the
  labels are the values that occur in either array, and the matrix is 2 by 2 when both
  booleans occur, 1 by 1 when only one does.
\<close>

definition confusion_matrix :: "bool list \<Rightarrow> bool list \<Rightarrow> error + nat list list" where
  "confusion_matrix y_true y_pred =
     (if length y_true \<noteq> length y_pred then Inl ValueError
      else
        let labels = remdups (y_true @ y_pred) in
        if labels = [] then Inl ValueError
        else if length labels = 1 then Inr [[length y_true]]
        else Inr [[TN y_true y_pred, FP y_true y_pred],
                  [FN y_true y_pred, TP y_true y_pred]])"

text \<open>
  Python's floats are IEEE 754 binary64: the result of a division or a multiplication
  is the exact result rounded to 53 significant bits, to the nearest value and to the
  even one at a tie. \<open>float_round\<close> is this rounding on the reals (the exponent range is
  not modelled: the numbers below are quotients and products of counts, far from
  overflow and underflow). The counts themselves are converted exactly (they are below
  \<open>2^53\<close>).
\<close>

definition round_half_even :: "real \<Rightarrow> int" where
  "round_half_even x =
     (let f = \<lfloor>x\<rfloor>; d = x - of_int f in
      if d < 1 / 2 then f else if d > 1 / 2 then f + 1 else if even f then f else f + 1)"

definition float_round :: "real \<Rightarrow> real" where
  "float_round x =
     (if x = 0 then 0
      else let e = \<lfloor>log 2 \<bar>x\<bar>\<rfloor> - 52 in
           of_int (round_half_even (x / 2 powr of_int e)) * 2 powr of_int e)"

definition float_div :: "real \<Rightarrow> real \<Rightarrow> real" where
  "float_div a b = float_round (a / b)"

definition float_mul :: "real \<Rightarrow> real \<Rightarrow> real" where
  "float_mul a b = float_round (a * b)"

text \<open>
  \<^verbatim>\<open>precision_score(y_true, y_pred)\<close> and \<^verbatim>\<open>recall_score(y_true, y_pred)\<close> for binary labels:
  \<open>tp / (tp + fp)\<close> and \<open>tp / (tp + fn)\<close> in float64, and \<open>0.0\<close> (with a warning) when the
  denominator is zero; arrays of different lengths raise ValueError.
\<close>

definition precision_score :: "bool list \<Rightarrow> bool list \<Rightarrow> error + real" where
  "precision_score y_true y_pred =
     (if length y_true \<noteq> length y_pred then Inl ValueError
      else
        let tp_sum = TP y_true y_pred; pred_sum = TP y_true y_pred + FP y_true y_pred in
        if pred_sum = 0 then Inr 0 else Inr (float_div (of_nat tp_sum) (of_nat pred_sum)))"

definition recall_score :: "bool list \<Rightarrow> bool list \<Rightarrow> error + real" where
  "recall_score y_true y_pred =
     (if length y_true \<noteq> length y_pred then Inl ValueError
      else
        let tp_sum = TP y_true y_pred; true_sum = TP y_true y_pred + FN y_true y_pred in
        if true_sum = 0 then Inr 0 else Inr (float_div (of_nat tp_sum) (of_nat true_sum)))"

section \<open>Auxiliary predicates\<close>

text \<open>An integer array whose row list matches its row count and whose entries are 0 or 1.\<close>

definition binary_array :: "int ndarray \<Rightarrow> bool" where
  "binary_array t \<longleftrightarrow>
     length (rows t) = shape0 t \<and> (\<forall>r \<in> set (rows t). \<forall>v \<in> set r. v = 0 \<or> v = 1)"

text \<open>
  The indicator block of one column: a column per sorted distinct value of the column.
\<close>

definition one_hot :: "'a::linorder ndarray \<Rightarrow> nat \<Rightarrow> int ndarray" where
  "one_hot x col =
     \<lparr>shape0 = shape0 x, shape1 = length (np_unique (column x col)),
      rows = map (\<lambda>r. indicator_row (np_unique (column x col)) (r ! col)) (rows x)\<rparr>"

section \<open>Example frames\<close>

text \<open>
  Two frames with the same columns (\<open>example_train\<close>, \<open>example_test\<close>), and a frame with
  the same column names in which \<open>code\<close> was read as strings (\<open>example_retyped\<close>).
\<close>

definition example_train :: "cell dataframe" where
  "example_train =
     \<lparr>df_index = [0, 1],
      df_columns =
        [\<lparr>col_name = ''amount'', col_dtype = Float64, col_vals = [Num 5, Num 7]\<rparr>,
         \<lparr>col_name = ''code'', col_dtype = Int64, col_vals = [Num 1, Num 2]\<rparr>,
         \<lparr>col_name = ''kind'', col_dtype = Object, col_vals = [Str ''a'', Str ''b'']\<rparr>]\<rparr>"

definition example_test :: "cell dataframe" where
  "example_test =
     \<lparr>df_index = [0, 1],
      df_columns =
        [\<lparr>col_name = ''amount'', col_dtype = Float64, col_vals = [Num 1, Num 2]\<rparr>,
         \<lparr>col_name = ''code'', col_dtype = Int64, col_vals = [Num 3, Num 4]\<rparr>,
         \<lparr>col_name = ''kind'', col_dtype = Object, col_vals = [Str ''b'', Str ''b'']\<rparr>]\<rparr>"

definition example_retyped :: "cell dataframe" where
  "example_retyped =
     \<lparr>df_index = [0, 1],
      df_columns =
        [\<lparr>col_name = ''amount'', col_dtype = Float64, col_vals = [Num 1, Num 2]\<rparr>,
         \<lparr>col_name = ''code'', col_dtype = Object, col_vals = [Str ''3'', Str ''4'']\<rparr>,
         \<lparr>col_name = ''kind'', col_dtype = Object, col_vals = [Str ''b'', Str ''b'']\<rparr>]\<rparr>"

text \<open>
  A frame for the pipeline, over the reals: one quantitative column and one categorical
  column whose categories are numeric codes.
\<close>

definition pipeline_frame :: "real dataframe" where
  "pipeline_frame =
     \<lparr>df_index = [0, 1, 2, 3],
      df_columns =
        [\<lparr>col_name = ''amount'', col_dtype = Float64, col_vals = [1, 3, 1, 3]\<rparr>,
         \<lparr>col_name = ''kind'', col_dtype = Category, col_vals = [20, 10, 30, 10]\<rparr>]\<rparr>"

text \<open>The pipeline after \<open>fit_transform\<close> on \<open>pipeline_frame\<close>, and the prepared matrix.\<close>

definition pipeline_fitted :: "scaler_state data_prep_pipeline" where
  "pipeline_fitted =
     \<lparr>quant_selector = \<lparr>quantitative = True, attribute_names = Some [''amount'']\<rparr>,
      std_scaler = Some \<lparr>scaler_mean = [2], scaler_scale = [1]\<rparr>,
      qual_selector = \<lparr>quantitative = False, attribute_names = Some [''kind'']\<rparr>\<rparr>"

definition pipeline_prepared :: "real ndarray" where
  "pipeline_prepared =
     \<lparr>shape0 = 4, shape1 = 4,
      rows = [[-1, 0, 1, 0], [1, 1, 0, 0], [-1, 0, 0, 1], [1, 1, 0, 0]]\<rparr>"

text \<open>The record of a frame at a row position.\<close>

definition row_at :: "'v dataframe \<Rightarrow> nat \<Rightarrow> nat \<times> 'v list" where
  "row_at df i = (df_index df ! i, map (\<lambda>c. col_vals c ! i) (df_columns df))"

text \<open>
  A frame with the columns of the notebook's transaction data, and a stand-in for numpy's
  generator (the reversed range, whatever the seed).
\<close>

definition example_transactions :: "cell dataframe" where
  "example_transactions =
     \<lparr>df_index = [0, 1, 2, 3],
      df_columns =
        [\<lparr>col_name = ''fromId'', col_dtype = Int64, col_vals = [Num 1, Num 1, Num 2, Num 3]\<rparr>,
         \<lparr>col_name = ''txType'', col_dtype = Object,
            col_vals = [Str ''Payment'', Str ''Transfer'', Str ''Payment'', Str ''CashOut'']\<rparr>,
         \<lparr>col_name = ''txAmount'', col_dtype = Float64, col_vals = [Num 10, Num 20, Num 30, Num 40]\<rparr>,
         \<lparr>col_name = ''txOrder'', col_dtype = Int64, col_vals = [Num 1, Num 2, Num 3, Num 4]\<rparr>,
         \<lparr>col_name = ''fraudulentTx'', col_dtype = Bool, col_vals = [Num 0, Num 0, Num 1, Num 0]\<rparr>,
         \<lparr>col_name = ''toId'', col_dtype = Int64, col_vals = [Num 7, Num 8, Num 9, Num 7]\<rparr>,
         \<lparr>col_name = ''previousTxType'', col_dtype = Object,
            col_vals = [NaN, Str ''Payment'', NaN, NaN]\<rparr>,
         \<lparr>col_name = ''data_chunk'', col_dtype = Int64, col_vals = [Num 1, Num 1, Num 2, Num 0]\<rparr>]\<rparr>"

definition example_permutation :: "nat \<Rightarrow> nat \<Rightarrow> nat list" where
  "example_permutation seed n = rev [0..<n]"

section \<open>Properties of MyLabelBinarizer\<close>

lemma indicator_row_binary: "v \<in> set (indicator_row classes l) \<Longrightarrow> v = 0 \<or> v = 1"
  by (auto simp: indicator_row_def)

lemma last_indicator_row_binary:
  "classes \<noteq> [] \<Longrightarrow> last (indicator_row classes l) = 0 \<or> last (indicator_row classes l) = 1"
  by (simp add: indicator_row_def last_map)

lemma label_binarize_cases:
  assumes "label_binarize y classes = Inr t"
  shows "t = \<lparr>shape0 = length y, shape1 = 1, rows = replicate (length y) [0]\<rparr>
      \<or> (classes \<noteq> [] \<and>
          t = \<lparr>shape0 = length y, shape1 = 1,
               rows = map (\<lambda>r. [last r]) (map (indicator_row classes) y)\<rparr>)
      \<or> t = \<lparr>shape0 = length y, shape1 = length classes, rows = map (indicator_row classes) y\<rparr>"
  using assms by (auto simp: label_binarize_def Let_def split: if_splits)

lemma label_binarize_binary:
  assumes "label_binarize y classes = Inr t"
  shows "binary_array t"
proof -
  from label_binarize_cases [OF assms] consider
      (zeros) "shape0 t = length y" "rows t = replicate (length y) [0]"
    | (lastc) "shape0 t = length y" "classes \<noteq> []"
        "rows t = map (\<lambda>r. [last r]) (map (indicator_row classes) y)"
    | (full) "shape0 t = length y" "rows t = map (indicator_row classes) y"
    by auto
  then show ?thesis
  proof cases
    case zeros
    then show ?thesis by (auto simp: binary_array_def)
  next
    case lastc
    then show ?thesis
      using last_indicator_row_binary [of classes] by (auto simp: binary_array_def)
  next
    case full
    then show ?thesis
      using indicator_row_binary [of _ classes] by (auto simp: binary_array_def)
  qed
qed

lemma binarize_columns_binary:
  "binarize_columns x cols acc = Inr ts \<Longrightarrow> \<forall>t \<in> set acc. binary_array t
     \<Longrightarrow> \<forall>t \<in> set ts. binary_array t"
proof (induction cols arbitrary: acc)
  case Nil
  then show ?case by simp
next
  case (Cons col cols)
  from Cons.prems(1) obtain t where
    t: "label_binarize (column x col) (np_unique (column x col)) = Inr t" and
    rest: "binarize_columns x cols (acc @ [t]) = Inr ts"
    by (auto split: sum.splits)
  from t have "binary_array t" by (rule label_binarize_binary)
  with Cons.prems(2) have "\<forall>u \<in> set (acc @ [t]). binary_array u" by simp
  with rest show ?case by (rule Cons.IH)
qed

lemma np_hstack_binary:
  assumes "np_hstack ts = Inr Y" and "\<forall>t \<in> set ts. binary_array t"
  shows "\<forall>r \<in> set (rows Y). \<forall>v \<in> set r. v = 0 \<or> v = 1"
proof (cases ts)
  case Nil
  with assms show ?thesis by (simp add: np_hstack_def)
next
  case (Cons a as)
  with assms have same: "\<forall>b \<in> set ts. shape0 b = shape0 a"
    and Y: "rows Y = map (\<lambda>i. concat (map (\<lambda>b. rows b ! i) ts)) [0..<shape0 a]"
    by (auto simp: np_hstack_def split: if_splits)
  show ?thesis
  proof (intro ballI)
    fix r v assume "r \<in> set (rows Y)" and "v \<in> set r"
    then obtain i b where i: "i < shape0 a" and b: "b \<in> set ts" and v: "v \<in> set (rows b ! i)"
      unfolding Y by auto
    from b same assms(2) have "length (rows b) = shape0 a" and
      bin: "\<forall>r \<in> set (rows b). \<forall>v \<in> set r. v = 0 \<or> v = 1"
      by (auto simp: binary_array_def)
    with i have "rows b ! i \<in> set (rows b)" by simp
    with bin v show "v = 0 \<or> v = 1" by blast
  qed
qed

text \<open>
  C1. The claim: each source column yields one indicator column per distinct value, so
  the output has as many columns as the columns have distinct values in total. The code
  breaks it for a column with exactly two distinct values: \<open>label_binarize\<close> treats the
  column as a binary target and returns a single column (the indicator of the larger
  value). The input below has one column with the two values \<open>A\<close> and \<open>B\<close>; the output
  has one column, not two.
\<close>

theorem MyLabelBinarizer_two_values_single_column:
  "length (np_unique (column \<lparr>shape0 = 2, shape1 = 1, rows = [[''A''], [''B'']]\<rparr> 0)) = 2 \<and>
   MyLabelBinarizer_transform \<lparr>shape0 = 2, shape1 = 1, rows = [[''A''], [''B'']]\<rparr>
     = Inr \<lparr>shape0 = 2, shape1 = 1, rows = [[0], [1]]\<rparr>"
  by (simp add: MyLabelBinarizer_transform_def label_binarize_def np_unique_def column_def
      np_hstack_def type_of_target_def indicator_row_def)

text \<open>
  C10. Every entry of the matrix returned by \<open>MyLabelBinarizer.transform\<close> is 0 or 1.
\<close>

theorem MyLabelBinarizer_transform_binary:
  assumes "MyLabelBinarizer_transform x = Inr Y" and "r \<in> set (rows Y)" and "v \<in> set r"
  shows "v = 0 \<or> v = 1"
proof -
  from assms(1) obtain ts where
    ts: "binarize_columns x [0..<shape1 x] [] = Inr ts" and Y: "np_hstack ts = Inr Y"
    by (auto simp: MyLabelBinarizer_transform_def split: sum.splits)
  from binarize_columns_binary [OF ts] have "\<forall>t \<in> set ts. binary_array t" by simp
  with Y have "\<forall>r \<in> set (rows Y). \<forall>v \<in> set r. v = 0 \<or> v = 1" by (rule np_hstack_binary)
  with assms(2,3) show ?thesis by blast
qed

theorem MyLabelBinarizer_transform_binary_witness:
  "MyLabelBinarizer_transform
      \<lparr>shape0 = 3, shape1 = 2, rows = [[''B'', ''x''], [''A'', ''x''], [''C'', ''y'']]\<rparr>
     = Inr \<lparr>shape0 = 3, shape1 = 4, rows = [[0, 1, 0, 0], [1, 0, 0, 0], [0, 0, 1, 1]]\<rparr>
   \<and> set (concat (rows \<lparr>shape0 = 3, shape1 = 4,
                         rows = [[0, 1, 0, 0], [1, 0, 0, 0], [0, 0, 1, 1::int]]\<rparr>)) \<subseteq> {0, 1}"
proof -
  have run: "MyLabelBinarizer_transform
      \<lparr>shape0 = 3, shape1 = 2, rows = [[''B'', ''x''], [''A'', ''x''], [''C'', ''y'']]\<rparr>
     = Inr \<lparr>shape0 = 3, shape1 = 4, rows = [[0, 1, 0, 0], [1, 0, 0, 0], [0, 0, 1, 1]]\<rparr>"
    by code_simp
  have "v = 0 \<or> v = 1"
    if "r \<in> set (rows \<lparr>shape0 = 3, shape1 = 4,
                        rows = [[0, 1, 0, 0], [1, 0, 0, 0], [0, 0, 1, 1::int]]\<rparr>)" "v \<in> set r"
    for r v
    using MyLabelBinarizer_transform_binary [OF run that] .
  then have "set (concat (rows \<lparr>shape0 = 3, shape1 = 4,
      rows = [[0, 1, 0, 0], [1, 0, 0, 0], [0, 0, 1, 1::int]]\<rparr>)) \<subseteq> {0, 1}"
    by (intro subsetI) (auto simp del: ndarray.simps)
  with run show ?thesis by (rule conjI)
qed

section \<open>Properties of AttributeSelector\<close>

lemma filter_key_single:
  "distinct (map f xs) \<Longrightarrow> y \<in> set xs \<Longrightarrow> filter (\<lambda>c. f c = f y) xs = [y]"
proof (induction xs)
  case Nil
  then show ?case by simp
next
  case (Cons x xs)
  show ?case
  proof (cases "x = y")
    case True
    with Cons.prems(1) have "filter (\<lambda>c. f c = f y) xs = []"
      by (auto simp: filter_empty_conv image_iff)
    with True show ?thesis by simp
  next
    case False
    with Cons.prems have "y \<in> set xs" "f x \<noteq> f y" by auto
    with Cons show ?thesis by simp
  qed
qed

lemma concat_filter_keys:
  assumes "distinct (map f xs)" and "set ys \<subseteq> set xs"
  shows "concat (map (\<lambda>n. filter (\<lambda>c. f c = n) xs) (map f ys)) = ys"
  using assms(2)
proof (induction ys)
  case Nil
  then show ?case by simp
next
  case (Cons y ys)
  then have "y \<in> set xs" by simp
  with assms(1) have "filter (\<lambda>c. f c = f y) xs = [y]" by (rule filter_key_single)
  with Cons show ?case by simp
qed

lemma getitem_list_filter:
  assumes "distinct (map col_name (df_columns X))"
  shows "getitem_list X (map col_name (filter P (df_columns X)))
           = Inr (X\<lparr>df_columns := filter P (df_columns X)\<rparr>)"
proof -
  have "concat (map (\<lambda>n. filter (\<lambda>c. col_name c = n) (df_columns X))
          (map col_name (filter P (df_columns X)))) = filter P (df_columns X)"
    using assms by (rule concat_filter_keys) simp
  then show ?thesis
    by (auto simp: getitem_list_def columns_def)
qed

text \<open>
  On a frame with distinct column names \<open>transform\<close> succeeds: it stores the names of the
  columns of the requested kind and returns exactly their values.
\<close>

lemma AttributeSelector_transform_eq:
  assumes "distinct (map col_name (df_columns X))"
  shows "AttributeSelector_transform self X
    = Inr (self\<lparr>attribute_names := Some (columns (matching_columns (quantitative self) X))\<rparr>,
           df_values (matching_columns (quantitative self) X))"
proof (cases "quantitative self")
  case True
  with getitem_list_filter [OF assms, of "\<lambda>c. col_dtype c \<notin> set [Object, Category]"]
  show ?thesis
    by (simp add: AttributeSelector_transform_def matching_columns_def
        select_dtypes_exclude_def columns_def)
next
  case False
  with getitem_list_filter [OF assms, of "\<lambda>c. col_dtype c \<in> set [Object, Category]"]
  show ?thesis
    by (simp add: AttributeSelector_transform_def matching_columns_def
        select_dtypes_include_def columns_def)
qed

lemma names_of_dtype_filter:
  "map col_name (filter (\<lambda>c. P (col_dtype c)) cs)
     = map fst (filter (\<lambda>p. P (snd p)) (map (\<lambda>c. (col_name c, col_dtype c)) cs))"
  by (induction cs) auto

lemma columns_matching_schema:
  assumes "schema X' = schema X"
  shows "columns (matching_columns q X') = columns (matching_columns q X)"
proof -
  have same: "map col_name (filter (\<lambda>c. P (col_dtype c)) (df_columns X'))
      = map col_name (filter (\<lambda>c. P (col_dtype c)) (df_columns X))" for P
    unfolding names_of_dtype_filter using assms by (simp add: schema_def)
  show ?thesis
  proof (cases q)
    case True
    with same [of "\<lambda>d. d \<notin> set [Object, Category]"] show ?thesis
      by (simp add: matching_columns_def columns_def select_dtypes_exclude_def)
  next
    case False
    with same [of "\<lambda>d. d \<in> set [Object, Category]"] show ?thesis
      by (simp add: matching_columns_def columns_def select_dtypes_include_def)
  qed
qed

text \<open>
  C2, as claimed: \<open>fit\<close> records the matching column names and every later \<open>transform\<close>
  reuses the recorded list, so a record set with the same columns is cut to the columns
  recorded at fit time. The code does not: \<open>fit\<close> leaves \<open>attribute_names\<close> unset, and
  \<open>transform\<close> selects by the dtypes of the frame it is given. \<open>example_retyped\<close> has the
  columns of \<open>example_train\<close>, where \<open>amount\<close> and \<open>code\<close> are quantitative; after
  fitting on \<open>example_train\<close>, the transform of \<open>example_retyped\<close> returns \<open>amount\<close> alone.
\<close>

theorem AttributeSelector_fit_records_nothing:
  "columns example_retyped = columns example_train \<and>
   attribute_names (AttributeSelector_fit (AttributeSelector_init True) example_train) = None \<and>
   columns (matching_columns True example_train) = [''amount'', ''code''] \<and>
   AttributeSelector_transform
       (AttributeSelector_fit (AttributeSelector_init True) example_train) example_retyped
     = Inr (\<lparr>quantitative = True, attribute_names = Some [''amount'']\<rparr>,
            \<lparr>shape0 = 2, shape1 = 1, rows = [[Num 1], [Num 2]]\<rparr>)"
  by (simp add: example_train_def example_retyped_def columns_def AttributeSelector_fit_def
      AttributeSelector_init_def matching_columns_def select_dtypes_exclude_def
      AttributeSelector_transform_def getitem_list_def df_values_def)

text \<open>
  C2, amended: \<open>fit\<close> returns the selector unchanged. Every \<open>transform\<close> computes the
  names of the columns of the requested kind from the frame it is given, stores them in
  \<open>attribute_names\<close> (whatever was there before) and returns exactly the values of those
  columns. Hence for a frame \<open>X'\<close> whose columns have the names and dtypes of the
  columns of \<open>X\<close>, in the same order, the transform after a fit on \<open>X\<close> stores the names
  that match in \<open>X\<close> and returns the values of the matching columns of \<open>X'\<close>.
\<close>

theorem AttributeSelector_transform_recomputes:
  assumes "wf_dataframe X'" and "schema X' = schema X"
  shows "AttributeSelector_fit self X = self \<and>
         AttributeSelector_transform (AttributeSelector_fit self X) X'
           = Inr (self\<lparr>attribute_names :=
                         Some (columns (matching_columns (quantitative self) X))\<rparr>,
                  df_values (matching_columns (quantitative self) X'))"
proof -
  from assms(1) have "distinct (map col_name (df_columns X'))" by (simp add: wf_dataframe_def)
  from AttributeSelector_transform_eq [OF this, of self]
    columns_matching_schema [OF assms(2), of "quantitative self"]
  show ?thesis by (simp add: AttributeSelector_fit_def)
qed

theorem AttributeSelector_transform_recomputes_witness:
  "wf_dataframe example_test \<and> schema example_test = schema example_train \<and>
   AttributeSelector_transform
       (AttributeSelector_fit (AttributeSelector_init True) example_train) example_test
     = Inr (\<lparr>quantitative = True, attribute_names = Some [''amount'', ''code'']\<rparr>,
            \<lparr>shape0 = 2, shape1 = 2, rows = [[Num 1, Num 3], [Num 2, Num 4]]\<rparr>)"
proof -
  have wf: "wf_dataframe example_test"
    by (simp add: wf_dataframe_def example_test_def)
  have sch: "schema example_test = schema example_train"
    by (simp add: schema_def example_test_def example_train_def)
  from AttributeSelector_transform_recomputes [OF wf sch, of "AttributeSelector_init True"]
  have "AttributeSelector_transform
       (AttributeSelector_fit (AttributeSelector_init True) example_train) example_test
     = Inr (AttributeSelector_init True\<lparr>attribute_names :=
              Some (columns (matching_columns True example_train))\<rparr>,
            df_values (matching_columns True example_test))"
    by (simp add: AttributeSelector_init_def AttributeSelector_fit_def)
  also have "\<dots> = Inr (\<lparr>quantitative = True, attribute_names = Some [''amount'', ''code'']\<rparr>,
            \<lparr>shape0 = 2, shape1 = 2, rows = [[Num 1, Num 3], [Num 2, Num 4]]\<rparr>)"
    by (simp add: AttributeSelector_init_def columns_def matching_columns_def
        select_dtypes_exclude_def example_train_def example_test_def df_values_def)
  finally show ?thesis using wf sch by simp
qed

text \<open>
  C9. On a frame with distinct column names, the selector for the quantitative columns
  and the selector for the qualitative columns split the columns in two: the two name
  lists are disjoint, together they are all the column names, and every column (name,
  dtype and values) is in exactly one of the two selected frames.
\<close>

theorem AttributeSelector_partition:
  assumes "wf_dataframe X"
  shows "\<exists>qn ql.
     AttributeSelector_transform (AttributeSelector_init True) X
       = Inr (\<lparr>quantitative = True, attribute_names = Some qn\<rparr>,
              df_values (matching_columns True X)) \<and>
     AttributeSelector_transform (AttributeSelector_init False) X
       = Inr (\<lparr>quantitative = False, attribute_names = Some ql\<rparr>,
              df_values (matching_columns False X)) \<and>
     set qn \<inter> set ql = {} \<and> set qn \<union> set ql = set (columns X) \<and>
     mset (df_columns (matching_columns True X)) + mset (df_columns (matching_columns False X))
       = mset (df_columns X)"
proof -
  let ?qn = "columns (matching_columns True X)" and ?ql = "columns (matching_columns False X)"
  from assms have d: "distinct (map col_name (df_columns X))" by (simp add: wf_dataframe_def)
  have t: "AttributeSelector_transform (AttributeSelector_init True) X
       = Inr (\<lparr>quantitative = True, attribute_names = Some ?qn\<rparr>,
              df_values (matching_columns True X))"
    using AttributeSelector_transform_eq [OF d, of "AttributeSelector_init True"]
    by (simp add: AttributeSelector_init_def)
  have f: "AttributeSelector_transform (AttributeSelector_init False) X
       = Inr (\<lparr>quantitative = False, attribute_names = Some ?ql\<rparr>,
              df_values (matching_columns False X))"
    using AttributeSelector_transform_eq [OF d, of "AttributeSelector_init False"]
    by (simp add: AttributeSelector_init_def)
  have u: "set ?qn \<union> set ?ql = set (columns X)"
    by (auto simp: columns_def matching_columns_def select_dtypes_exclude_def
        select_dtypes_include_def)
  have i: "set ?qn \<inter> set ?ql = {}"
  proof -
    have "False"
      if "a \<in> set (df_columns X)" "b \<in> set (df_columns X)" "col_name a = col_name b"
        "col_dtype a \<notin> set [Object, Category]" "col_dtype b \<in> set [Object, Category]" for a b
    proof -
      from d that(1-3) have "a = b" by (meson distinct_map inj_onD)
      with that(4,5) show False by simp
    qed
    then show ?thesis
      unfolding columns_def matching_columns_def select_dtypes_exclude_def
        select_dtypes_include_def
      by (auto simp del: set_simps)
  qed
  have m: "mset (df_columns (matching_columns True X))
             + mset (df_columns (matching_columns False X)) = mset (df_columns X)"
    by (simp add: matching_columns_def select_dtypes_exclude_def select_dtypes_include_def)
  from t f i u m show ?thesis by blast
qed

theorem AttributeSelector_partition_witness:
  "wf_dataframe example_train \<and>
   AttributeSelector_transform (AttributeSelector_init True) example_train
     = Inr (\<lparr>quantitative = True, attribute_names = Some [''amount'', ''code'']\<rparr>,
            \<lparr>shape0 = 2, shape1 = 2, rows = [[Num 5, Num 1], [Num 7, Num 2]]\<rparr>) \<and>
   AttributeSelector_transform (AttributeSelector_init False) example_train
     = Inr (\<lparr>quantitative = False, attribute_names = Some [''kind'']\<rparr>,
            \<lparr>shape0 = 2, shape1 = 1, rows = [[Str ''a''], [Str ''b'']]\<rparr>) \<and>
   set [''amount'', ''code''] \<inter> set [''kind''] = {}"
proof -
  have wf: "wf_dataframe example_train"
    by (simp add: wf_dataframe_def example_train_def)
  have quant: "AttributeSelector_transform (AttributeSelector_init True) example_train
     = Inr (\<lparr>quantitative = True, attribute_names = Some [''amount'', ''code'']\<rparr>,
            \<lparr>shape0 = 2, shape1 = 2, rows = [[Num 5, Num 1], [Num 7, Num 2]]\<rparr>)"
    by (simp add: AttributeSelector_init_def AttributeSelector_transform_def columns_def
        matching_columns_def select_dtypes_exclude_def example_train_def df_values_def
        getitem_list_def)
  have qual: "AttributeSelector_transform (AttributeSelector_init False) example_train
     = Inr (\<lparr>quantitative = False, attribute_names = Some [''kind'']\<rparr>,
            \<lparr>shape0 = 2, shape1 = 1, rows = [[Str ''a''], [Str ''b'']]\<rparr>)"
    by (simp add: AttributeSelector_init_def AttributeSelector_transform_def columns_def
        matching_columns_def select_dtypes_include_def example_train_def df_values_def
        getitem_list_def)
  from AttributeSelector_partition [OF wf] obtain qn ql where
    qn: "AttributeSelector_transform (AttributeSelector_init True) example_train
       = Inr (\<lparr>quantitative = True, attribute_names = Some qn\<rparr>,
              df_values (matching_columns True example_train))" and
    ql: "AttributeSelector_transform (AttributeSelector_init False) example_train
       = Inr (\<lparr>quantitative = False, attribute_names = Some ql\<rparr>,
              df_values (matching_columns False example_train))" and
    disjoint: "set qn \<inter> set ql = {}"
    by blast
  from qn quant have "qn = [''amount'', ''code'']" by simp
  moreover from ql qual have "ql = [''kind'']" by simp
  ultimately have "set [''amount'', ''code''] \<inter> set [''kind''] = {}"
    using disjoint by (simp only:)
  with wf quant qual show ?thesis by (simp only: simp_thms)
qed

section \<open>Properties of the preprocessing pipeline\<close>

lemma AttributeSelector_transform_again:
  assumes "AttributeSelector_transform self X = Inr (sel, A)"
  shows "AttributeSelector_transform sel X = Inr (sel, A)"
  using assms
  by (auto simp: AttributeSelector_transform_def Let_def split: sum.splits)

text \<open>
  After \<open>fit_transform\<close> of the quantitative branch, its \<open>transform\<close> on the same frame
  gives the same array and leaves the state as it is; the same holds in any pipeline
  state that agrees on the branch's selector and scaler.
\<close>

lemma quant_pipeline_refit:
  assumes "quant_pipeline_fit_transform sc p X = Inr (p1, Y)"
    and "quant_selector q = quant_selector p1" and "std_scaler q = std_scaler p1"
  shows "quant_pipeline_transform sc q X = Inr (q, Y)"
proof -
  from assms(1) obtain sel Xt st where
    sel: "AttributeSelector_transform (quant_selector p) X = Inr (sel, Xt)" and
    st: "scaler_fit sc Xt = Inr st" and Y: "scaler_transform sc st Xt = Inr Y" and
    p1: "p1 = p\<lparr>quant_selector := sel, std_scaler := Some st\<rparr>"
    by (auto simp: quant_pipeline_fit_transform_def AttributeSelector_fit_def split: sum.splits)
  from sel have "AttributeSelector_transform sel X = Inr (sel, Xt)"
    by (rule AttributeSelector_transform_again)
  with assms(2,3) p1 Y show ?thesis
    by (simp add: quant_pipeline_transform_def)
qed

lemma qual_pipeline_refit:
  assumes "qual_pipeline_fit_transform p X = Inr (p1, Y)"
  shows "qual_pipeline_transform p1 X = Inr (p1, Y)"
proof -
  from assms obtain sel Xt where
    sel: "AttributeSelector_transform (qual_selector p) X = Inr (sel, Xt)" and
    Y: "MyLabelBinarizer_transform Xt = Inr Y" and
    p1: "p1 = p\<lparr>qual_selector := sel\<rparr>"
    by (auto simp: qual_pipeline_fit_transform_def AttributeSelector_fit_def split: sum.splits)
  from sel have "AttributeSelector_transform sel X = Inr (sel, Xt)"
    by (rule AttributeSelector_transform_again)
  with p1 Y show ?thesis
    by (simp add: qual_pipeline_transform_def)
qed

lemma qual_pipeline_fit_transform_frame:
  assumes "qual_pipeline_fit_transform p X = Inr (p1, Y)"
  shows "quant_selector p1 = quant_selector p \<and> std_scaler p1 = std_scaler p"
  using assms
  by (auto simp: qual_pipeline_fit_transform_def split: sum.splits)

text \<open>
  C3. When \<open>data_prep_pipeline.fit_transform(X)\<close> returns a matrix, a following
  \<open>data_prep_pipeline.transform(X)\<close> on the same \<open>X\<close> returns the same matrix (and leaves
  the fitted pipeline as it is), for any scaler whose \<open>fit_transform\<close> is \<open>fit\<close> followed
  by \<open>transform\<close>.
\<close>

theorem data_prep_pipeline_transform_after_fit_transform:
  assumes "data_prep_pipeline_fit_transform sc p X = Inr (p', Y)"
  shows "data_prep_pipeline_transform sc p' X = Inr (p', Y)"
proof -
  from assms obtain p1 Xquant Xqual where
    quant: "quant_pipeline_fit_transform sc p X = Inr (p1, Xquant)" and
    qual: "qual_pipeline_fit_transform p1 X = Inr (p', Xqual)" and
    Y: "np_hstack [Xquant, astype Xqual] = Inr Y"
    by (auto simp: data_prep_pipeline_fit_transform_def split: sum.splits)
  from qual_pipeline_fit_transform_frame [OF qual]
  have "quant_pipeline_transform sc p' X = Inr (p', Xquant)"
    by (intro quant_pipeline_refit [OF quant]) simp_all
  moreover from qual have "qual_pipeline_transform p' X = Inr (p', Xqual)"
    by (rule qual_pipeline_refit)
  ultimately show ?thesis using Y
    by (simp add: data_prep_pipeline_transform_def)
qed

text \<open>The run of \<open>fit_transform\<close> with \<open>StandardScaler\<close> on \<open>pipeline_frame\<close>, step by step.\<close>

lemma pipeline_frame_quantitative:
  "AttributeSelector_transform \<lparr>quantitative = True, attribute_names = None\<rparr> pipeline_frame
     = Inr (\<lparr>quantitative = True, attribute_names = Some [''amount'']\<rparr>,
            \<lparr>shape0 = 4, shape1 = Suc 0, rows = [[1], [3], [1], [3]]\<rparr>)"
  by (simp add: AttributeSelector_transform_def matching_columns_def
      select_dtypes_exclude_def columns_def getitem_list_def df_values_def pipeline_frame_def)

lemma pipeline_frame_qualitative:
  "AttributeSelector_transform \<lparr>quantitative = False, attribute_names = None\<rparr> pipeline_frame
     = Inr (\<lparr>quantitative = False, attribute_names = Some [''kind'']\<rparr>,
            \<lparr>shape0 = 4, shape1 = Suc 0, rows = [[20], [10], [30], [10]]\<rparr>)"
  by (simp add: AttributeSelector_transform_def matching_columns_def
      select_dtypes_include_def columns_def getitem_list_def df_values_def pipeline_frame_def)

lemma pipeline_frame_scaler_fit:
  "StandardScaler_fit \<lparr>shape0 = 4, shape1 = Suc 0, rows = [[1], [3], [1], [3]]\<rparr>
     = Inr \<lparr>scaler_mean = [2], scaler_scale = [1]\<rparr>"
  by (simp add: StandardScaler_fit_def column_def np_mean_def np_var_def
      handle_zeros_in_scale_def)

lemma pipeline_frame_scaler_transform:
  "StandardScaler_transform \<lparr>scaler_mean = [2], scaler_scale = [1]\<rparr>
       \<lparr>shape0 = 4, shape1 = Suc 0, rows = [[1], [3], [1], [3]]\<rparr>
     = Inr \<lparr>shape0 = 4, shape1 = Suc 0, rows = [[-1], [1], [-1], [1]]\<rparr>"
  by (simp add: StandardScaler_transform_def)

lemma pipeline_frame_binarized:
  "MyLabelBinarizer_transform \<lparr>shape0 = 4, shape1 = Suc 0, rows = [[20], [10], [30], [10::real]]\<rparr>
     = Inr \<lparr>shape0 = 4, shape1 = 3, rows = [[0, 1, 0], [1, 0, 0], [0, 0, 1], [1, 0, 0]]\<rparr>"
  by (simp add: MyLabelBinarizer_transform_def label_binarize_def np_unique_def column_def
      np_hstack_def type_of_target_def indicator_row_def)

lemma pipeline_frame_fit_transform:
  "data_prep_pipeline_fit_transform StandardScaler data_prep_pipeline_init pipeline_frame
     = Inr (pipeline_fitted, pipeline_prepared)"
proof -
  have quant:
    "quant_pipeline_fit_transform StandardScaler data_prep_pipeline_init pipeline_frame
       = Inr (\<lparr>quant_selector = \<lparr>quantitative = True, attribute_names = Some [''amount'']\<rparr>,
               std_scaler = Some \<lparr>scaler_mean = [2], scaler_scale = [1]\<rparr>,
               qual_selector = \<lparr>quantitative = False, attribute_names = None\<rparr>\<rparr>,
              \<lparr>shape0 = 4, shape1 = Suc 0, rows = [[-1], [1], [-1], [1]]\<rparr>)"
    by (simp add: quant_pipeline_fit_transform_def data_prep_pipeline_init_def
        AttributeSelector_init_def AttributeSelector_fit_def pipeline_frame_quantitative
        StandardScaler_def pipeline_frame_scaler_fit pipeline_frame_scaler_transform)
  have qual:
    "qual_pipeline_fit_transform
        \<lparr>quant_selector = \<lparr>quantitative = True, attribute_names = Some [''amount'']\<rparr>,
         std_scaler = Some \<lparr>scaler_mean = [2], scaler_scale = [1]\<rparr>,
         qual_selector = \<lparr>quantitative = False, attribute_names = None\<rparr>\<rparr> pipeline_frame
       = Inr (pipeline_fitted,
              \<lparr>shape0 = 4, shape1 = 3, rows = [[0, 1, 0], [1, 0, 0], [0, 0, 1], [1, 0, 0]]\<rparr>)"
    by (simp add: qual_pipeline_fit_transform_def AttributeSelector_fit_def
        pipeline_frame_qualitative pipeline_frame_binarized pipeline_fitted_def)
  show ?thesis
    by (simp add: data_prep_pipeline_fit_transform_def quant qual np_hstack_def astype_def
        pipeline_prepared_def upt_rec [of 0 "4::nat"] upt_rec [of _ "4::nat"])
qed

theorem data_prep_pipeline_transform_after_fit_transform_witness:
  "data_prep_pipeline_fit_transform StandardScaler data_prep_pipeline_init pipeline_frame
     = Inr (pipeline_fitted, pipeline_prepared) \<and>
   data_prep_pipeline_transform StandardScaler pipeline_fitted pipeline_frame
     = Inr (pipeline_fitted, pipeline_prepared)"
  using pipeline_frame_fit_transform
    data_prep_pipeline_transform_after_fit_transform [OF pipeline_frame_fit_transform]
  by (rule conjI)

section \<open>Properties of Datasets\<close>

text \<open>What the constructor computes from the input frame alone.\<close>

lemma Datasets_init_Inr:
  assumes "Datasets_init permutation h input test_size = Inr (h', ds)"
  shows "\<exists>dropped filled train test x_train y_train x_test y_test.
     drop_columns [''data_chunk'', ''txOrder'', ''fromId'', ''toId''] (h ! input) = Inr dropped \<and>
     fillna_inplace ''previousTxType'' (Str ''First'') dropped = Inr filled \<and>
     train_test_split permutation filled test_size 42 = Inr (train, test) \<and>
     drop_columns [''fraudulentTx''] train = Inr x_train \<and>
     getitem train ''fraudulentTx'' = Inr y_train \<and>
     drop_columns [''fraudulentTx''] test = Inr x_test \<and>
     getitem test ''fraudulentTx'' = Inr y_test \<and>
     h' = h @ [filled, train, test, x_train, x_test] \<and>
     ds = \<lparr>original_data = input, data = length h,
           train_set = length h + 1, test_set = length h + 2,
           X_Train_DF = length h + 3, Y_Train = y_train,
           X_Test_DF = length h + 4, Y_Test = y_test\<rparr>"
  using assms
  unfolding Datasets_init_def alloc_def Let_def
  by (auto simp: nth_append split: sum.splits prod.splits)

lemma Datasets_init_eq:
  assumes
     "drop_columns [''data_chunk'', ''txOrder'', ''fromId'', ''toId''] (h ! input) = Inr dropped"
     "fillna_inplace ''previousTxType'' (Str ''First'') dropped = Inr filled"
     "train_test_split permutation filled test_size 42 = Inr (train, test)"
     "drop_columns [''fraudulentTx''] train = Inr x_train"
     "getitem train ''fraudulentTx'' = Inr y_train"
     "drop_columns [''fraudulentTx''] test = Inr x_test"
     "getitem test ''fraudulentTx'' = Inr y_test"
   shows "Datasets_init permutation h input test_size = Inr (h @ [filled, train, test, x_train, x_test],
       \<lparr>original_data = input, data = length h,
           train_set = length h + 1, test_set = length h + 2,
           X_Train_DF = length h + 3, Y_Train = y_train,
           X_Test_DF = length h + 4, Y_Test = y_test\<rparr>)"
  using assms
  unfolding Datasets_init_def alloc_def Let_def
  by (simp add: nth_append)

lemma columns_take_rows: "columns (take_rows indices df) = columns df"
  by (simp add: columns_def take_rows_def comp_def)

lemma df_index_take_rows: "df_index (take_rows indices df) = map (\<lambda>i. df_index df ! i) indices"
  by (simp add: take_rows_def)

lemma drop_columns_Inr:
  assumes "drop_columns labels df = Inr d"
  shows "d = df\<lparr>df_columns := filter (\<lambda>c. col_name c \<notin> set labels) (df_columns df)\<rparr>"
    and "df_index d = df_index df"
  using assms by (auto simp: drop_columns_def split: if_splits)

lemma columns_drop:
  "set (columns (df\<lparr>df_columns := filter (\<lambda>c. col_name c \<notin> set labels) (df_columns df)\<rparr>))
     = set (columns df) - set labels"
  by (auto simp: columns_def)

lemma drop_columns_succeeds:
  assumes "set labels \<subseteq> set (columns df)"
  shows "drop_columns labels df
           = Inr (df\<lparr>df_columns := filter (\<lambda>c. col_name c \<notin> set labels) (df_columns df)\<rparr>)"
  using assms by (auto simp: drop_columns_def)

lemma fillna_inplace_Inr:
  assumes "fillna_inplace name v df = Inr d"
  shows "df_index d = df_index df" and "columns d = columns df"
  using assms by (auto simp: fillna_inplace_def columns_def comp_def split: if_splits)

lemma fillna_inplace_succeeds:
  assumes "name \<in> set (columns df)"
  shows "\<exists>d. fillna_inplace name v df = Inr d"
  using assms by (simp add: fillna_inplace_def)

lemma getitem_succeeds:
  assumes "name \<in> set (columns df)"
  shows "\<exists>s. getitem df name = Inr s"
proof -
  from assms obtain c where "c \<in> set (df_columns df)" "col_name c = name"
    by (auto simp: columns_def)
  then have "filter (\<lambda>c. col_name c = name) (df_columns df) \<noteq> []"
    by (auto simp: filter_empty_conv)
  then show ?thesis
    by (cases "filter (\<lambda>c. col_name c = name) (df_columns df)") (simp_all add: getitem_def)
qed

lemma train_test_split_Inr:
  assumes "train_test_split permutation df test_size seed = Inr (train, test)"
  defines "n \<equiv> length (df_index df)"
  defines "n_test \<equiv> nat \<lceil>test_size * of_nat n\<rceil>"
  shows "n_test < n"
    and "test = take_rows (take n_test (permutation seed n)) df"
    and "train = take_rows (take (n - n_test) (drop n_test (permutation seed n))) df"
  using assms
  by (auto simp: train_test_split_def validate_shuffle_split_def Let_def
      split: sum.splits if_splits)

lemma train_test_split_succeeds:
  assumes "0 < test_size" and "test_size < 1"
    and "nat \<lceil>test_size * of_nat (length (df_index df))\<rceil> < length (df_index df)"
  shows "\<exists>train test. train_test_split permutation df test_size seed = Inr (train, test)"
  using assms
  by (simp add: train_test_split_def validate_shuffle_split_def Let_def)

text \<open>
  The constructor returns when the frame has the columns it names and the split leaves
  a train row.
\<close>

lemma Datasets_init_succeeds:
  assumes cols: "set [''data_chunk'', ''txOrder'', ''fromId'', ''toId'', ''previousTxType'',
                     ''fraudulentTx''] \<subseteq> set (columns (h ! input))"
    and size: "0 < test_size" "test_size < 1"
      "nat \<lceil>test_size * of_nat (length (df_index (h ! input)))\<rceil> < length (df_index (h ! input))"
  shows "\<exists>h' ds. Datasets_init permutation h input test_size = Inr (h', ds)"
proof -
  let ?labels = "[''data_chunk'', ''txOrder'', ''fromId'', ''toId'']"
  define dropped where
    "dropped = (h ! input)\<lparr>df_columns :=
        filter (\<lambda>c. col_name c \<notin> set ?labels) (df_columns (h ! input))\<rparr>"
  from cols have d: "drop_columns ?labels (h ! input) = Inr dropped"
    unfolding dropped_def by (intro drop_columns_succeeds) simp
  from cols have keep: "''previousTxType'' \<in> set (columns dropped)"
    "''fraudulentTx'' \<in> set (columns dropped)"
    unfolding dropped_def columns_drop by auto
  from keep(1) obtain filled where
    f: "fillna_inplace ''previousTxType'' (Str ''First'') dropped = Inr filled"
    using fillna_inplace_succeeds by blast
  from fillna_inplace_Inr [OF f] keep(2)
  have fcols: "''fraudulentTx'' \<in> set (columns filled)"
    and fidx: "df_index filled = df_index (h ! input)"
    by (simp_all add: dropped_def)
  from size fidx obtain train test where
    s: "train_test_split permutation filled test_size 42 = Inr (train, test)"
    using train_test_split_succeeds [of test_size filled permutation 42] by auto
  from train_test_split_Inr(2,3) [OF s] fcols
  have tc: "''fraudulentTx'' \<in> set (columns train)" "''fraudulentTx'' \<in> set (columns test)"
    by (auto simp: columns_take_rows)
  from tc obtain y_train y_test where
    y: "getitem train ''fraudulentTx'' = Inr y_train" "getitem test ''fraudulentTx'' = Inr y_test"
    using getitem_succeeds by blast
  from tc have x: "\<exists>x_train. drop_columns [''fraudulentTx''] train = Inr x_train"
    "\<exists>x_test. drop_columns [''fraudulentTx''] test = Inr x_test"
    by (simp_all add: drop_columns_def)
  then obtain x_train x_test where
    x': "drop_columns [''fraudulentTx''] train = Inr x_train"
      "drop_columns [''fraudulentTx''] test = Inr x_test"
    by blast
  from Datasets_init_eq [OF d f s x'(1) y(1) x'(2) y(2)] show ?thesis by blast
qed

lemma df_rows_row_at: "df_rows df = map (row_at df) [0..<length (df_index df)]"
  by (simp add: df_rows_def row_at_def)

lemma df_rows_take_rows: "df_rows (take_rows indices df) = map (row_at df) indices"
  by (auto simp: df_rows_def take_rows_def row_at_def intro!: nth_equalityI)

lemma mset_permutation_split:
  assumes "mset perm = mset [0..<n]"
  shows "take (n - n_test) (drop n_test perm) = drop n_test perm"
    and "mset (drop n_test perm @ take n_test perm) = mset [0..<n]"
proof -
  from assms have "size (mset perm) = size (mset [0..<n])" by simp
  then have "length perm = n" by simp
  then show "take (n - n_test) (drop n_test perm) = drop n_test perm" by simp
  have "mset (drop n_test perm @ take n_test perm) = mset (take n_test perm @ drop n_test perm)"
    by (simp only: mset_append add.commute)
  with assms show "mset (drop n_test perm @ take n_test perm) = mset [0..<n]" by simp
qed

lemma example_transactions_succeeds:
  "\<exists>h' ds. Datasets_init example_permutation [example_transactions] 0 (1 / 4) = Inr (h', ds)"
  by (rule Datasets_init_succeeds)
    (simp_all add: example_transactions_def columns_def)

text \<open>
  C8. Constructing \<open>Datasets(data)\<close> leaves the frame passed in as it was:
  \<open>original_data\<close> is the reference passed in, the frame it refers to (and every other
  frame allocated before) is unchanged in the store after the constructor, and
  \<open>self.data\<close>, which the drop creates and the fill writes into, is another object.
\<close>

theorem Datasets_init_leaves_input:
  assumes "Datasets_init permutation h input test_size = Inr (h', ds)" and "input < length h"
  shows "original_data ds = input \<and> h' ! original_data ds = h ! input \<and>
         take (length h) h' = h \<and> data ds \<noteq> original_data ds"
proof -
  from Datasets_init_Inr [OF assms(1)] obtain filled train test x_train x_test y_train y_test
    where h': "h' = h @ [filled, train, test, x_train, x_test]"
      and ds: "ds = \<lparr>original_data = input, data = length h,
           train_set = length h + 1, test_set = length h + 2,
           X_Train_DF = length h + 3, Y_Train = y_train,
           X_Test_DF = length h + 4, Y_Test = y_test\<rparr>"
    by blast
  from assms(2) show ?thesis by (simp add: h' ds nth_append)
qed

theorem Datasets_init_leaves_input_witness:
  "0 < length [example_transactions] \<and>
   NaN \<in> set (col_vals (df_columns example_transactions ! 6)) \<and>
   (\<exists>h' ds. Datasets_init example_permutation [example_transactions] 0 (1 / 4) = Inr (h', ds) \<and>
      original_data ds = 0 \<and> h' ! original_data ds = example_transactions \<and>
      data ds \<noteq> original_data ds)"
proof -
  from example_transactions_succeeds obtain h' ds where
    run: "Datasets_init example_permutation [example_transactions] 0 (1 / 4) = Inr (h', ds)"
    by blast
  have valid: "0 < length [example_transactions]" by simp
  from Datasets_init_leaves_input [OF run valid]
  have "original_data ds = 0 \<and> h' ! original_data ds = example_transactions \<and>
      data ds \<noteq> original_data ds"
    by auto
  with run have "\<exists>h' ds.
      Datasets_init example_permutation [example_transactions] 0 (1 / 4) = Inr (h', ds) \<and>
      original_data ds = 0 \<and> h' ! original_data ds = example_transactions \<and>
      data ds \<noteq> original_data ds"
    by blast
  moreover have "NaN \<in> set (col_vals (df_columns example_transactions ! 6))"
    by (simp add: example_transactions_def)
  ultimately show ?thesis by simp
qed

text \<open>
  C4. Two runs of the constructor on identical input give identical partitions: when a
  run on the frame at \<open>a\<close> in the store \<open>h\<close> returns, a run on an equal frame (at \<open>b\<close> in
  any store \<open>k\<close>, for instance the store the first run left) returns too, and its
  filled data, train set, test set, train features, train labels, test features and
  test labels equal those of the first run. The seed is the constant 42 in both runs,
  so both draw the same permutation.
\<close>

theorem Datasets_init_deterministic:
  assumes "Datasets_init permutation h a test_size = Inr (h1, ds1)" and "k ! b = h ! a"
  shows "\<exists>k1 ds2. Datasets_init permutation k b test_size = Inr (k1, ds2) \<and>
     k1 ! data ds2 = h1 ! data ds1 \<and>
     k1 ! train_set ds2 = h1 ! train_set ds1 \<and> k1 ! test_set ds2 = h1 ! test_set ds1 \<and>
     k1 ! X_Train_DF ds2 = h1 ! X_Train_DF ds1 \<and> Y_Train ds2 = Y_Train ds1 \<and>
     k1 ! X_Test_DF ds2 = h1 ! X_Test_DF ds1 \<and> Y_Test ds2 = Y_Test ds1"
proof -
  from Datasets_init_Inr [OF assms(1)] obtain dropped filled train test x_train y_train x_test y_test
    where stages:
     "drop_columns [''data_chunk'', ''txOrder'', ''fromId'', ''toId''] (h ! a) = Inr dropped"
     "fillna_inplace ''previousTxType'' (Str ''First'') dropped = Inr filled"
     "train_test_split permutation filled test_size 42 = Inr (train, test)"
     "drop_columns [''fraudulentTx''] train = Inr x_train"
     "getitem train ''fraudulentTx'' = Inr y_train"
     "drop_columns [''fraudulentTx''] test = Inr x_test"
     "getitem test ''fraudulentTx'' = Inr y_test"
    and h1: "h1 = h @ [filled, train, test, x_train, x_test]"
    and ds1: "ds1 = \<lparr>original_data = a, data = length h,
           train_set = length h + 1, test_set = length h + 2,
           X_Train_DF = length h + 3, Y_Train = y_train,
           X_Test_DF = length h + 4, Y_Test = y_test\<rparr>"
    by blast
  from stages(1) assms(2)
  have "drop_columns [''data_chunk'', ''txOrder'', ''fromId'', ''toId''] (k ! b) = Inr dropped"
    by simp
  from Datasets_init_eq [OF this stages(2-7)]
  have "Datasets_init permutation k b test_size =
    Inr (k @ [filled, train, test, x_train, x_test],
         \<lparr>original_data = b, data = length k, train_set = length k + 1,
            test_set = length k + 2, X_Train_DF = length k + 3, Y_Train = y_train,
            X_Test_DF = length k + 4, Y_Test = y_test\<rparr>)" .
  then show ?thesis
    by (simp add: h1 ds1 nth_append)
qed

theorem Datasets_init_deterministic_witness:
  "\<exists>h1 ds1 h2 ds2.
     Datasets_init example_permutation [example_transactions] 0 (1 / 4) = Inr (h1, ds1) \<and>
     Datasets_init example_permutation h1 0 (1 / 4) = Inr (h2, ds2) \<and>
     h2 ! train_set ds2 = h1 ! train_set ds1 \<and> h2 ! test_set ds2 = h1 ! test_set ds1 \<and>
     h2 ! X_Train_DF ds2 = h1 ! X_Train_DF ds1 \<and> Y_Train ds2 = Y_Train ds1 \<and>
     h2 ! X_Test_DF ds2 = h1 ! X_Test_DF ds1 \<and> Y_Test ds2 = Y_Test ds1"
proof -
  from example_transactions_succeeds obtain h1 ds1 where
    run: "Datasets_init example_permutation [example_transactions] 0 (1 / 4) = Inr (h1, ds1)"
    by blast
  from Datasets_init_Inr [OF run] have same: "h1 ! 0 = [example_transactions] ! 0"
    by auto
  from Datasets_init_deterministic [OF run same] run show ?thesis by blast
qed

lemma fillna_inplace_Inr_eq:
  assumes "fillna_inplace name v df = Inr d"
  shows "d = df\<lparr>df_columns :=
               map (\<lambda>c. if col_name c = name then c\<lparr>col_vals := fillna v (col_vals c)\<rparr> else c)
                 (df_columns df)\<rparr>"
  using assms by (auto simp: fillna_inplace_def split: if_splits)

text \<open>
  C5. The frame that is split, \<open>self.data\<close>, is the input without the four dropped
  columns and with the missing cells of \<open>previousTxType\<close> filled; it has the rows of the
  input, under the same labels. The train and test sets partition these rows: they are
  the rows at two lists of positions that are disjoint, without repetition, and
  together all row positions of the input; their sizes add up to the number of rows of
  the input; and the records of the two sets together are the records of the
  (post-drop) input, each as often. numpy's \<open>permutation\<close> is assumed to return a
  permutation of the positions.
\<close>

theorem Datasets_init_partition:
  assumes run: "Datasets_init permutation h input test_size = Inr (h', ds)"
    and perm: "mset (permutation 42 (length (df_index (h ! input))))
                 = mset [0..<length (df_index (h ! input))]"
  shows "\<exists>ind_train ind_test.
     h' ! data ds =
       (h ! input)\<lparr>df_columns :=
          map (\<lambda>c. if col_name c = ''previousTxType''
                    then c\<lparr>col_vals := fillna (Str ''First'') (col_vals c)\<rparr> else c)
            (filter (\<lambda>c. col_name c \<notin> set [''data_chunk'', ''txOrder'', ''fromId'', ''toId''])
               (df_columns (h ! input)))\<rparr> \<and>
     df_index (h' ! data ds) = df_index (h ! input) \<and>
     h' ! train_set ds = take_rows ind_train (h' ! data ds) \<and>
     h' ! test_set ds = take_rows ind_test (h' ! data ds) \<and>
     set ind_train \<inter> set ind_test = {} \<and>
     set ind_train \<union> set ind_test = {0..<length (df_index (h ! input))} \<and>
     set ind_train \<union> set ind_test = {0..<length (df_index (h' ! data ds))} \<and>
     distinct ind_train \<and> distinct ind_test \<and>
     df_index (h' ! train_set ds) = map (\<lambda>i. df_index (h ! input) ! i) ind_train \<and>
     df_index (h' ! test_set ds) = map (\<lambda>i. df_index (h ! input) ! i) ind_test \<and>
     length (df_index (h' ! train_set ds)) + length (df_index (h' ! test_set ds))
       = length (df_index (h ! input)) \<and>
     length (df_index (h' ! train_set ds)) + length (df_index (h' ! test_set ds))
       = length (df_index (h' ! data ds)) \<and>
     mset (df_rows (h' ! train_set ds)) + mset (df_rows (h' ! test_set ds))
       = mset (df_rows (h' ! data ds))"
proof -
  from Datasets_init_Inr [OF run] obtain dropped filled train test x_train y_train x_test y_test
    where d: "drop_columns [''data_chunk'', ''txOrder'', ''fromId'', ''toId''] (h ! input) = Inr dropped"
      and f: "fillna_inplace ''previousTxType'' (Str ''First'') dropped = Inr filled"
      and s: "train_test_split permutation filled test_size 42 = Inr (train, test)"
      and h': "h' = h @ [filled, train, test, x_train, x_test]"
      and ds: "ds = \<lparr>original_data = input, data = length h,
           train_set = length h + 1, test_set = length h + 2,
           X_Train_DF = length h + 3, Y_Train = y_train,
           X_Test_DF = length h + 4, Y_Test = y_test\<rparr>"
    by blast
  define n where "n = length (df_index filled)"
  define n_test where "n_test = nat \<lceil>test_size * of_nat n\<rceil>"
  define p where "p = permutation 42 n"
  from drop_columns_Inr(2) [OF d] fillna_inplace_Inr(1) [OF f]
  have idx: "df_index filled = df_index (h ! input)" by simp
  then have n: "n = length (df_index (h ! input))" by (simp add: n_def)
  from drop_columns_Inr(1) [OF d] fillna_inplace_Inr_eq [OF f]
  have filled: "filled =
       (h ! input)\<lparr>df_columns :=
          map (\<lambda>c. if col_name c = ''previousTxType''
                    then c\<lparr>col_vals := fillna (Str ''First'') (col_vals c)\<rparr> else c)
            (filter (\<lambda>c. col_name c \<notin> set [''data_chunk'', ''txOrder'', ''fromId'', ''toId''])
               (df_columns (h ! input)))\<rparr>"
    by simp
  from n perm have p: "mset p = mset [0..<n]" by (simp add: p_def)
  from train_test_split_Inr [OF s]
  have test: "test = take_rows (take n_test p) filled"
    and train0: "train = take_rows (take (n - n_test) (drop n_test p)) filled"
    by (simp_all add: n_def n_test_def p_def)
  from train0 mset_permutation_split(1) [OF p]
  have train: "train = take_rows (drop n_test p) filled" by simp
  from mset_permutation_split(2) [OF p]
  have both: "mset (drop n_test p @ take n_test p) = mset [0..<n]" .
  then have dist: "distinct (drop n_test p @ take n_test p)"
    by (metis distinct_upt mset_eq_imp_distinct_iff)
  from both have "set (drop n_test p @ take n_test p) = set [0..<n]"
    by (rule mset_eq_setD)
  then have cover: "set (drop n_test p) \<union> set (take n_test p) = {0..<n}" by simp
  from both have "size (mset (drop n_test p @ take n_test p)) = size (mset [0..<n])" by simp
  then have len: "length (drop n_test p) + length (take n_test p) = n"
    by (simp del: length_drop length_take)
  have rows: "mset (df_rows train) + mset (df_rows test) = mset (df_rows filled)"
  proof -
    have "mset (df_rows train) + mset (df_rows test)
        = image_mset (row_at filled) (mset (drop n_test p @ take n_test p))"
      by (simp add: train test df_rows_take_rows)
    also have "\<dots> = image_mset (row_at filled) (mset [0..<n])" by (simp only: both)
    also have "\<dots> = mset (df_rows filled)" by (simp add: df_rows_row_at n_def)
    finally show ?thesis .
  qed
  have sel: "h' ! train_set ds = train" "h' ! test_set ds = test" "h' ! data ds = filled"
    by (simp_all add: h' ds nth_append)
  have lens: "length (df_index train) + length (df_index test) = n"
    using len by (simp add: train test df_index_take_rows del: length_drop length_take)
  show ?thesis
  proof (rule exI [of _ "drop n_test p"], rule exI [of _ "take n_test p"], intro conjI)
    show "h' ! data ds =
       (h ! input)\<lparr>df_columns :=
          map (\<lambda>c. if col_name c = ''previousTxType''
                    then c\<lparr>col_vals := fillna (Str ''First'') (col_vals c)\<rparr> else c)
            (filter (\<lambda>c. col_name c \<notin> set [''data_chunk'', ''txOrder'', ''fromId'', ''toId''])
               (df_columns (h ! input)))\<rparr>"
      unfolding sel by (rule filled)
    show "df_index (h' ! data ds) = df_index (h ! input)"
      unfolding sel by (rule idx)
    show "h' ! train_set ds = take_rows (drop n_test p) (h' ! data ds)"
      by (simp add: sel train)
    show "h' ! test_set ds = take_rows (take n_test p) (h' ! data ds)"
      by (simp add: sel test)
    show "set (drop n_test p) \<inter> set (take n_test p) = {}"
      using dist by simp
    show "set (drop n_test p) \<union> set (take n_test p) = {0..<length (df_index (h ! input))}"
      using cover by (simp only: n)
    show "set (drop n_test p) \<union> set (take n_test p) = {0..<length (df_index (h' ! data ds))}"
      using cover by (simp add: sel n_def)
    show "distinct (drop n_test p)" "distinct (take n_test p)"
      using dist by simp_all
    show "df_index (h' ! train_set ds) = map (\<lambda>i. df_index (h ! input) ! i) (drop n_test p)"
      unfolding sel train df_index_take_rows idx by (rule refl)
    show "df_index (h' ! test_set ds) = map (\<lambda>i. df_index (h ! input) ! i) (take n_test p)"
      unfolding sel test df_index_take_rows idx by (rule refl)
    show "length (df_index (h' ! train_set ds)) + length (df_index (h' ! test_set ds))
       = length (df_index (h ! input))"
      unfolding sel using lens by (simp only: n)
    show "length (df_index (h' ! train_set ds)) + length (df_index (h' ! test_set ds))
       = length (df_index (h' ! data ds))"
      unfolding sel using lens by (simp only: n_def)
    show "mset (df_rows (h' ! train_set ds)) + mset (df_rows (h' ! test_set ds))
       = mset (df_rows (h' ! data ds))"
      using rows by (simp add: sel)
  qed
qed

theorem Datasets_init_partition_witness:
  "mset (example_permutation 42 (length (df_index ([example_transactions] ! 0))))
     = mset [0..<length (df_index ([example_transactions] ! 0))] \<and>
   (\<exists>h' ds.
     Datasets_init example_permutation [example_transactions] 0 (1 / 4) = Inr (h', ds) \<and>
     df_index (h' ! data ds) = [0, 1, 2, 3] \<and>
     length (df_index (h' ! train_set ds)) + length (df_index (h' ! test_set ds)) = 4 \<and>
     mset (df_rows (h' ! train_set ds)) + mset (df_rows (h' ! test_set ds))
       = mset (df_rows (h' ! data ds)))"
proof -
  from example_transactions_succeeds obtain h' ds where
    run: "Datasets_init example_permutation [example_transactions] 0 (1 / 4) = Inr (h', ds)"
    by blast
  have perm: "mset (example_permutation 42 (length (df_index ([example_transactions] ! 0))))
     = mset [0..<length (df_index ([example_transactions] ! 0))]"
    by (simp add: example_permutation_def)
  from Datasets_init_partition [OF run perm]
  have "df_index (h' ! data ds) = df_index ([example_transactions] ! 0)"
    and "length (df_index (h' ! train_set ds)) + length (df_index (h' ! test_set ds))
       = length (df_index ([example_transactions] ! 0))"
    and "mset (df_rows (h' ! train_set ds)) + mset (df_rows (h' ! test_set ds))
       = mset (df_rows (h' ! data ds))"
    by blast+
  then have "df_index (h' ! data ds) = [0, 1, 2, 3]"
    and "length (df_index (h' ! train_set ds)) + length (df_index (h' ! test_set ds)) = 4"
    and "mset (df_rows (h' ! train_set ds)) + mset (df_rows (h' ! test_set ds))
       = mset (df_rows (h' ! data ds))"
    by (simp_all add: example_transactions_def)
  with run have "\<exists>h' ds.
     Datasets_init example_permutation [example_transactions] 0 (1 / 4) = Inr (h', ds) \<and>
     df_index (h' ! data ds) = [0, 1, 2, 3] \<and>
     length (df_index (h' ! train_set ds)) + length (df_index (h' ! test_set ds)) = 4 \<and>
     mset (df_rows (h' ! train_set ds)) + mset (df_rows (h' ! test_set ds))
       = mset (df_rows (h' ! data ds))"
    by blast
  with perm show ?thesis by (rule conjI)
qed

section \<open>Properties of prevTxFeatures\<close>

text \<open>
  C6. The claim: each transaction gets the minimum, mean and maximum of the amounts of
  the prior 7 transactions of the client. The window of the code is
  \<open>data.iloc[:i+1,2].tail(lastK)\<close>: the transaction itself and the 6 before it. For a
  client with the amounts 10 and 20, the prior transactions of the second one are the
  first alone (minimum, mean and maximum 10), and the first one has none; the code
  writes 10, 15, 20 for the second and 10, 10, 10 for the first.
\<close>

theorem prevTxFeatures_window_includes_current:
  "\<exists>d. prevTxFeatures (client_frame [10, 20]) 7 = Inr d \<and>
     features_of d 0 = [Num 10, Num 10, Num 10] \<and>
     features_of d 1 = [Num 10, Num 15, Num 20]"
  by (simp add: prevTxFeatures_def client_frame_def client_frame_with_def
      prevTxFeatures_step_def iloc_rows_col_def
      iloc_set_def tail_def series_min_def series_mean_def series_max_def series_reduce_def
      features_of_def Let_def)

section \<open>Properties of the performance measures\<close>

lemma round_half_even_error: "\<bar>of_int (round_half_even y) - y\<bar> \<le> 1 / 2"
proof -
  define f where "f = \<lfloor>y\<rfloor>"
  have "of_int f \<le> y" "y < of_int f + 1" unfolding f_def by linarith+
  then have "\<bar>of_int (if y - of_int f < 1 / 2 then f
        else if y - of_int f > 1 / 2 then f + 1 else if even f then f else f + 1) - y\<bar> \<le> 1 / 2"
    by (auto simp: abs_if)
  then show ?thesis by (simp add: round_half_even_def Let_def f_def)
qed

lemma float_round_error: "\<bar>float_round x - x\<bar> \<le> \<bar>x\<bar> / 2 ^ 53"
proof (cases "x = 0")
  case True
  then show ?thesis by (simp add: float_round_def)
next
  case False
  define e where "e = \<lfloor>log 2 \<bar>x\<bar>\<rfloor> - 52"
  define s :: real where "s = 2 powr of_int e"
  have s_pos: "0 < s" by (simp add: s_def)
  have fr: "float_round x = of_int (round_half_even (x / s)) * s"
    using False by (simp add: float_round_def e_def s_def Let_def)
  have "\<bar>float_round x - x\<bar> = \<bar>of_int (round_half_even (x / s)) - x / s\<bar> * s"
  proof -
    have "float_round x - x = (of_int (round_half_even (x / s)) - x / s) * s"
      using s_pos by (simp add: fr field_simps)
    then show ?thesis using s_pos by (simp add: abs_mult)
  qed
  also have "\<dots> \<le> (1 / 2) * s"
    using round_half_even_error [of "x / s"] s_pos by (intro mult_right_mono) simp_all
  also have "\<dots> \<le> \<bar>x\<bar> / 2 ^ 53"
  proof -
    have "of_int \<lfloor>log 2 \<bar>x\<bar>\<rfloor> \<le> log 2 \<bar>x\<bar>" by simp
    then have "of_int e \<le> log 2 \<bar>x\<bar> - 52" by (simp add: e_def)
    then have "s \<le> 2 powr (log 2 \<bar>x\<bar> - 52)"
      unfolding s_def by (simp add: powr_mono)
    also have "\<dots> = \<bar>x\<bar> / 2 ^ 52"
      using False by (simp add: powr_diff)
    finally show ?thesis by simp
  qed
  finally show ?thesis .
qed

lemma float_mul_div_error:
  assumes "0 \<le> t" and "0 < n"
  shows "\<bar>float_mul (float_div t n) n - t\<bar> \<le> t / 2 ^ 51"
proof -
  define u :: real where "u = 1 / 2 ^ 53"
  define a where "a = t / n"
  define p where "p = float_round a"
  define z where "z = p * n"
  have a_nonneg: "0 \<le> a" using assms by (simp add: a_def)
  have an: "a * n = t" using assms by (simp add: a_def)
  have "\<bar>p - a\<bar> \<le> a * u"
    using float_round_error [of a] a_nonneg by (simp add: p_def u_def)
  then have "\<bar>p - a\<bar> * n \<le> a * u * n"
    using assms(2) by (intro mult_right_mono) simp_all
  moreover have "\<bar>z - t\<bar> = \<bar>p - a\<bar> * n"
  proof -
    have "z - t = (p - a) * n" by (simp add: z_def an [symmetric] algebra_simps)
    then show ?thesis using assms(2) by (simp add: abs_mult)
  qed
  moreover have "a * u * n = t * u" using an by (simp add: algebra_simps)
  ultimately have zt: "\<bar>z - t\<bar> \<le> t * u" by (simp only:)
  with assms(1) have zabs: "\<bar>z\<bar> \<le> t + t * u" by linarith
  have "\<bar>float_round z - z\<bar> \<le> \<bar>z\<bar> * u"
    using float_round_error [of z] by (simp add: u_def)
  also have "\<dots> \<le> (t + t * u) * u"
    using zabs by (intro mult_right_mono) (simp_all add: u_def)
  finally have "\<bar>float_round z - t\<bar> \<le> (t + t * u) * u + t * u"
    using zt by linarith
  also have "\<dots> = t * (2 * u + u * u)" by (simp add: algebra_simps)
  also have "\<dots> \<le> t * (1 / 2 ^ 51)"
    using assms(1) by (intro mult_left_mono) (simp_all add: u_def)
  finally show ?thesis
    by (simp add: float_mul_def float_div_def z_def p_def a_def)
qed


lemma two_powr_neg: "2 powr (- real m) = 1 / 2 ^ m"
  by (simp add: powr_minus powr_realpow inverse_eq_divide)

lemma float_round_below_one:
  assumes "1 / 2 ^ Suc m \<le> x" and "x < 1 / 2 ^ m"
  shows "float_round x = of_int (round_half_even (x * 2 ^ (m + 53))) / 2 ^ (m + 53)"
proof -
  have "0 < (1::real) / 2 ^ Suc m" by simp
  with assms(1) have pos: "0 < x" by linarith
  have "\<lfloor>log 2 x\<rfloor> = - int (Suc m)"
  proof -
    have "2 powr of_int (- int (Suc m)) \<le> x"
      using assms(1) two_powr_neg [of "Suc m"] by simp
    moreover have "x < 2 powr of_int (- int (Suc m) + 1)"
      using assms(2) two_powr_neg [of m] by simp
    ultimately show ?thesis
      using pos by (subst floor_log_eq_powr_iff) simp_all
  qed
  then have e: "\<lfloor>log 2 \<bar>x\<bar>\<rfloor> - 52 = - int (m + 53)"
    using pos by simp
  have s: "(2::real) powr of_int (- int (m + 53)) = 1 / 2 ^ (m + 53)"
    using two_powr_neg [of "m + 53"] by simp
  show ?thesis
    using pos unfolding float_round_def Let_def e s by simp
qed

lemma float_div_1_49: "float_div 1 49 = 5882252574524729 / 2 ^ 58"
proof -
  have "float_round (1 / 49) = of_int (round_half_even (1 / 49 * 2 ^ (5 + 53))) / 2 ^ (5 + 53)"
    by (rule float_round_below_one) simp_all
  moreover have "round_half_even (1 / 49 * 2 ^ (5 + 53)) = 5882252574524729"
    by (simp add: round_half_even_def Let_def)
  ultimately show ?thesis by (simp add: float_div_def)
qed

lemma float_mul_49: "float_mul (5882252574524729 / 2 ^ 58) 49 = 9007199254740991 / 2 ^ 53"
proof -
  have "float_round (5882252574524729 / 2 ^ 58 * 49)
      = of_int (round_half_even (5882252574524729 / 2 ^ 58 * 49 * 2 ^ (0 + 53))) / 2 ^ (0 + 53)"
    by (rule float_round_below_one) simp_all
  moreover have "round_half_even (5882252574524729 / 2 ^ 58 * 49 * 2 ^ (0 + 53)) = 9007199254740991"
    by (simp add: round_half_even_def Let_def)
  ultimately show ?thesis by (simp add: float_mul_def)
qed

lemma skewed_counts:
  "TN (True # replicate 48 False) (replicate 49 True) = 0"
  "FP (True # replicate 48 False) (replicate 49 True) = 48"
  "FN (True # replicate 48 False) (replicate 49 True) = 0"
  "TP (True # replicate 48 False) (replicate 49 True) = 1"
  by code_simp+

lemma skewed_confusion_matrix:
  "confusion_matrix (True # replicate 48 False) (replicate 49 True) = Inr [[0, 48], [0, 1]]"
proof -
  have "remdups ((True # replicate 48 False) @ replicate 49 True) = [False, True]"
    by code_simp
  then show ?thesis
    by (simp add: confusion_matrix_def skewed_counts)
qed

lemma skewed_precision:
  "precision_score (True # replicate 48 False) (replicate 49 True) = Inr (float_div 1 49)"
  by (simp add: precision_score_def skewed_counts)

lemma skewed_recall:
  "recall_score (True # replicate 48 False) (replicate 49 True) = Inr (float_div 1 1)"
  by (simp add: recall_score_def skewed_counts)

lemma confusion_matrix_2x2:
  assumes "confusion_matrix y_true y_pred = Inr [[tn, fp], [fn, tp]]"
  shows "length y_true = length y_pred" and "tn = TN y_true y_pred" and "fp = FP y_true y_pred"
    and "fn = FN y_true y_pred" and "tp = TP y_true y_pred"
  using assms by (auto simp: confusion_matrix_def Let_def split: if_splits)

text \<open>
  C7, as claimed: \<open>precision * (TP + FP) == TP\<close> for every pair of label vectors. With one
  fraud among 49 transactions that are all predicted fraudulent, the confusion matrix is
  \<open>[[0, 48], [0, 1]]\<close>, the precision is the float nearest to \<open>1/49\<close>, and its product with
  49 is the float just below 1, not 1.
\<close>

theorem precision_identity_not_exact:
  "confusion_matrix (True # replicate 48 False) (replicate 49 True) = Inr [[0, 48], [0, 1]] \<and>
   precision_score (True # replicate 48 False) (replicate 49 True)
     = Inr (5882252574524729 / 2 ^ 58) \<and>
   float_mul (5882252574524729 / 2 ^ 58) (of_nat (1 + 48)) = 9007199254740991 / 2 ^ 53 \<and>
   float_mul (5882252574524729 / 2 ^ 58) (of_nat (1 + 48)) \<noteq> of_nat 1"
proof -
  have "float_mul (5882252574524729 / 2 ^ 58) (of_nat (1 + 48)) = 9007199254740991 / 2 ^ 53"
    using float_mul_49 by simp
  moreover from this
  have "float_mul (5882252574524729 / 2 ^ 58) (of_nat (1 + 48)) \<noteq> of_nat 1"
    by simp
  ultimately show ?thesis
    using skewed_confusion_matrix skewed_precision float_div_1_49 by simp
qed

text \<open>
  C7, amended: the identities hold within floating tolerance. For label vectors with the
  confusion matrix \<open>[[tn, fp], [fn, tp]]\<close>, the float product of the precision and
  \<open>tp + fp\<close>, and the float product of the recall and \<open>tp + fn\<close>, differ from \<open>tp\<close> by at
  most \<open>tp / 2^51\<close> (two roundings of relative error \<open>2^-53\<close> each); they are exact when
  \<open>tp = 0\<close>, also when the denominator is zero and the score is reported as 0.
\<close>

theorem precision_recall_identity_within_rounding:
  assumes "confusion_matrix y_true y_pred = Inr [[tn, fp], [fn, tp]]"
    and "precision_score y_true y_pred = Inr p"
    and "recall_score y_true y_pred = Inr r"
  shows "\<bar>float_mul p (of_nat (tp + fp)) - of_nat tp\<bar> \<le> of_nat tp / 2 ^ 51 \<and>
         \<bar>float_mul r (of_nat (tp + fn)) - of_nat tp\<bar> \<le> of_nat tp / 2 ^ 51"
proof -
  note cm = confusion_matrix_2x2 [OF assms(1)]
  have zero: "float_mul 0 x = 0" for x by (simp add: float_mul_def float_round_def)
  have precision: "\<bar>float_mul p (of_nat (tp + fp)) - of_nat tp\<bar> \<le> of_nat tp / 2 ^ 51"
  proof (cases "tp + fp = 0")
    case True
    with assms(2) cm show ?thesis by (simp add: precision_score_def zero)
  next
    case False
    with assms(2) cm have eq: "p = float_div (of_nat tp) (of_nat (tp + fp))"
      by (auto simp: precision_score_def Let_def split: if_splits)
    from False have "0 < tp + fp" by simp
    then have pos: "(0::real) < of_nat (tp + fp)" by (simp only: of_nat_0_less_iff)
    have "\<bar>float_mul (float_div (of_nat tp) (of_nat (tp + fp))) (of_nat (tp + fp)) - of_nat tp\<bar>
        \<le> of_nat tp / 2 ^ 51"
      by (rule float_mul_div_error [OF _ pos]) simp
    then show ?thesis by (simp only: eq)
  qed
  have recall: "\<bar>float_mul r (of_nat (tp + fn)) - of_nat tp\<bar> \<le> of_nat tp / 2 ^ 51"
  proof (cases "tp + fn = 0")
    case True
    with assms(3) cm show ?thesis by (simp add: recall_score_def zero)
  next
    case False
    with assms(3) cm have eq: "r = float_div (of_nat tp) (of_nat (tp + fn))"
      by (auto simp: recall_score_def Let_def split: if_splits)
    from False have "0 < tp + fn" by simp
    then have pos: "(0::real) < of_nat (tp + fn)" by (simp only: of_nat_0_less_iff)
    have "\<bar>float_mul (float_div (of_nat tp) (of_nat (tp + fn))) (of_nat (tp + fn)) - of_nat tp\<bar>
        \<le> of_nat tp / 2 ^ 51"
      by (rule float_mul_div_error [OF _ pos]) simp
    then show ?thesis by (simp only: eq)
  qed
  from precision recall show ?thesis by (rule conjI)
qed

theorem precision_recall_identity_within_rounding_witness:
  "confusion_matrix (True # replicate 48 False) (replicate 49 True) = Inr [[0, 48], [0, 1]] \<and>
   precision_score (True # replicate 48 False) (replicate 49 True) = Inr (float_div 1 49) \<and>
   recall_score (True # replicate 48 False) (replicate 49 True) = Inr (float_div 1 1) \<and>
   \<bar>float_mul (float_div 1 49) (of_nat (1 + 48)) - of_nat 1\<bar> \<le> of_nat 1 / 2 ^ 51 \<and>
   \<bar>float_mul (float_div 1 1) (of_nat (1 + 0)) - of_nat 1\<bar> \<le> of_nat 1 / 2 ^ 51"
  using skewed_confusion_matrix skewed_precision skewed_recall
    precision_recall_identity_within_rounding
      [OF skewed_confusion_matrix skewed_precision skewed_recall]
  by (simp only: simp_thms)

section \<open>MyLabelBinarizer on columns with three or more values\<close>

lemma np_unique_props:
  "sorted (np_unique a)" "distinct (np_unique a)" "set (np_unique a) = set a"
  "length (np_unique a) = card (set a)"
  by (simp_all add: np_unique_def length_remdups_card_conv)

lemma label_binarize_multiclass:
  assumes "y \<noteq> []" and "3 \<le> length (np_unique y)"
  shows "label_binarize y (np_unique y)
     = Inr \<lparr>shape0 = length y, shape1 = length (np_unique y),
            rows = map (indicator_row (np_unique y)) y\<rparr>"
proof -
  from assms(2) have "2 < length (remdups y)" by (simp add: np_unique_def)
  then have "type_of_target y = Multiclass" by (simp add: type_of_target_def)
  with assms show ?thesis by (simp add: label_binarize_def Let_def)
qed

lemma binarize_columns_multiclass:
  assumes "length (rows x) = shape0 x" and "0 < shape0 x"
    and "\<forall>col \<in> set cols. 3 \<le> length (np_unique (column x col))"
  shows "binarize_columns x cols acc = Inr (acc @ map (one_hot x) cols)"
  using assms(3)
proof (induction cols arbitrary: acc)
  case Nil
  then show ?case by simp
next
  case (Cons col cols)
  from assms(1,2) have ne: "column x col \<noteq> []" by (auto simp: column_def)
  from Cons.prems have "3 \<le> length (np_unique (column x col))" by simp
  from label_binarize_multiclass [OF ne this] assms(1)
  have "label_binarize (column x col) (np_unique (column x col)) = Inr (one_hot x col)"
    by (simp add: one_hot_def column_def comp_def)
  with Cons show ?case by simp
qed

text \<open>
  When the array has a row and a column and every column has at least three distinct
  values, \<open>transform\<close> returns, for every row, the indicator blocks of the columns from
  left to right; the block of a column has one entry per distinct value of the column,
  in sorted order, with a 1 at the row's value. The column count is the sum of the
  numbers of distinct values.
\<close>

theorem MyLabelBinarizer_transform_multiclass:
  assumes wf: "wf_ndarray x" and "0 < shape0 x" and "0 < shape1 x"
    and "\<forall>col < shape1 x. 3 \<le> length (np_unique (column x col))"
  shows "MyLabelBinarizer_transform x
     = Inr \<lparr>shape0 = shape0 x,
            shape1 = (\<Sum>col \<leftarrow> [0..<shape1 x]. length (np_unique (column x col))),
            rows = map (\<lambda>r. concat (map (\<lambda>col. indicator_row (np_unique (column x col)) (r ! col))
                                  [0..<shape1 x])) (rows x)\<rparr>"
proof -
  from wf have len: "length (rows x) = shape0 x" by (simp add: wf_ndarray_def)
  from assms(4) have "\<forall>col \<in> set [0..<shape1 x]. 3 \<le> length (np_unique (column x col))"
    by simp
  from binarize_columns_multiclass [OF len assms(2) this, of "[]"]
  have b: "binarize_columns x [0..<shape1 x] [] = Inr (map (one_hot x) [0..<shape1 x])"
    by simp
  from assms(3) obtain cols where cols: "[0..<shape1 x] = 0 # cols"
    by (cases "[0..<shape1 x]") (auto simp: upt_eq_Cons_conv)
  have rows_eq: "map (\<lambda>i. concat (map (\<lambda>b. rows b ! i) (map (one_hot x) [0..<shape1 x])))
                  [0..<shape0 x]
      = map (\<lambda>r. concat (map (\<lambda>col. indicator_row (np_unique (column x col)) (r ! col))
                                  [0..<shape1 x])) (rows x)"
    using len by (auto simp: one_hot_def comp_def intro!: nth_equalityI)
  have "np_hstack (map (one_hot x) [0..<shape1 x])
     = Inr \<lparr>shape0 = shape0 x,
            shape1 = sum_list (map shape1 (map (one_hot x) [0..<shape1 x])),
            rows = map (\<lambda>i. concat (map (\<lambda>b. rows b ! i) (map (one_hot x) [0..<shape1 x])))
                     [0..<shape0 x]\<rparr>"
    unfolding cols by (simp add: np_hstack_def one_hot_def)
  also have "sum_list (map shape1 (map (one_hot x) [0..<shape1 x]))
      = (\<Sum>col \<leftarrow> [0..<shape1 x]. length (np_unique (column x col)))"
    by (simp add: one_hot_def comp_def)
  finally show ?thesis
    using rows_eq by (simp add: MyLabelBinarizer_transform_def b)
qed

theorem MyLabelBinarizer_transform_multiclass_witness:
  "np_unique (column \<lparr>shape0 = 3, shape1 = 1, rows = [[''B''], [''A''], [''C'']]\<rparr> 0)
     = [''A'', ''B'', ''C''] \<and>
   MyLabelBinarizer_transform \<lparr>shape0 = 3, shape1 = 1, rows = [[''B''], [''A''], [''C'']]\<rparr>
     = Inr \<lparr>shape0 = 3, shape1 = 3, rows = [[0, 1, 0], [1, 0, 0], [0, 0, 1]]\<rparr>"
proof -
  let ?x = "\<lparr>shape0 = 3, shape1 = 1, rows = [[''B''], [''A''], [''C'']]\<rparr>"
  have u: "np_unique (column ?x 0) = [''A'', ''B'', ''C'']"
    by (simp add: np_unique_def column_def)
  have "\<forall>col < shape1 ?x. 3 \<le> length (np_unique (column ?x col))"
    using u by simp
  moreover have "wf_ndarray ?x" by (simp add: wf_ndarray_def)
  ultimately have "MyLabelBinarizer_transform ?x
     = Inr \<lparr>shape0 = shape0 ?x,
            shape1 = (\<Sum>col \<leftarrow> [0..<shape1 ?x]. length (np_unique (column ?x col))),
            rows = map (\<lambda>r. concat (map (\<lambda>col. indicator_row (np_unique (column ?x col)) (r ! col))
                                  [0..<shape1 ?x])) (rows ?x)\<rparr>"
    by (intro MyLabelBinarizer_transform_multiclass) simp_all
  also have "\<dots> = Inr \<lparr>shape0 = 3, shape1 = 3, rows = [[0, 1, 0], [1, 0, 0], [0, 0, 1]]\<rparr>"
    using u by (simp add: indicator_row_def)
  finally show ?thesis using u by simp
qed

section \<open>The window of prevTxFeatures\<close>

lemma client_frame_eq: "client_frame amounts = client_frame_with amounts (replicate (length amounts) (Num 0)) (replicate (length amounts) (Num 0)) (replicate (length amounts) (Num 0))"
  by (simp add: client_frame_def Let_def)

lemma nums_map_Num: "nums (map Num xs) = xs"
  by (induction xs) simp_all

lemma series_reduce_Num:
  assumes "xs \<noteq> []"
  shows "series_reduce f (map Num xs) = Inr (Num (f xs))"
  using assms by (auto simp: series_reduce_def nums_map_Num)

lemma tail_map: "tail k (map f xs) = map f (tail k xs)"
  by (simp add: tail_def drop_map)

lemma window_nonempty:
  assumes "0 < lastK" and "i < length amounts"
  shows "window lastK amounts i \<noteq> []"
  using assms by (auto simp: window_def tail_def)

lemma prevTxFeatures_step_client:
  assumes "0 < lastK" and "i < length amounts"
  shows "prevTxFeatures_step lastK (client_frame_with amounts mins means maxs) i
     = Inr (client_frame_with amounts
              (mins[i := Num (Min (set (window lastK amounts i)))])
              (means[i := Num (sum_list (window lastK amounts i) / of_nat (length (window lastK amounts i)))])
              (maxs[i := Num (Max (set (window lastK amounts i)))]))"
proof -
  have w: "tail lastK (take (Suc i) (map Num amounts)) = map Num (window lastK amounts i)"
    by (simp add: window_def tail_map take_map)
  note ne = window_nonempty [OF assms]
  show ?thesis
    using assms(2)
    by (simp add: prevTxFeatures_step_def iloc_rows_col_def client_frame_with_def Let_def
        w series_min_def series_mean_def series_max_def series_reduce_Num [OF ne] iloc_set_def)
qed


lemma fold_update_nth:
  "i < length f \<Longrightarrow>
     fold (\<lambda>j f. f[j := g j]) js f ! i = (if i \<in> set js then g i else f ! i)"
  by (induction js arbitrary: f) (auto simp: nth_list_update)

lemma length_fold_update: "length (fold (\<lambda>j f. f[j := g j]) js f) = length f"
  by (induction js arbitrary: f) simp_all

lemma prevTxFeatures_loop_client:
  assumes "0 < lastK" and "\<forall>i \<in> set js. i < length amounts"
  shows "prevTxFeatures_loop lastK js (client_frame_with amounts mins means maxs)
     = Inr (client_frame_with amounts
              (fold (\<lambda>i f. f[i := Num (Min (set (window lastK amounts i)))]) js mins)
              (fold (\<lambda>i f. f[i := Num (sum_list (window lastK amounts i)
                                        / of_nat (length (window lastK amounts i)))]) js means)
              (fold (\<lambda>i f. f[i := Num (Max (set (window lastK amounts i)))]) js maxs))"
  using assms(2)
proof (induction js arbitrary: mins means maxs)
  case Nil
  then show ?case by simp
next
  case (Cons i js)
  then have "i < length amounts" by simp
  from prevTxFeatures_step_client [OF assms(1) this] Cons show ?case by simp
qed

lemma features_of_client_frame_with:
  "features_of (client_frame_with amounts mins means maxs) i = [mins ! i, means ! i, maxs ! i]"
  by (simp add: features_of_def client_frame_with_def Let_def)

text \<open>
  What the loop computes, for every client and every positive \<open>lastK\<close>: the call
  returns, and row \<open>i\<close> gets the minimum, mean and maximum of the window
  \<open>tail lastK (take (i + 1) amounts)\<close>, the amounts of transaction \<open>i\<close> and of the
  \<open>lastK - 1\<close> transactions before it.
\<close>

theorem prevTxFeatures_client_frame:
  assumes "0 < lastK"
  shows "\<exists>d. prevTxFeatures (client_frame amounts) lastK = Inr d \<and>
           map (features_of d) [0..<length amounts]
             = map (window_features lastK amounts) [0..<length amounts]"
proof -
  let ?n = "length amounts"
  let ?zeros = "replicate ?n (Num 0)"
  have idx: "length (df_index (client_frame amounts)) = ?n"
    by (simp add: client_frame_def client_frame_with_def Let_def)
  have "\<forall>i \<in> set [0..<?n]. i < ?n" by simp
  from prevTxFeatures_loop_client [OF assms this, of ?zeros ?zeros ?zeros]
  have run: "prevTxFeatures (client_frame amounts) lastK
     = Inr (client_frame_with amounts
              (fold (\<lambda>i f. f[i := Num (Min (set (window lastK amounts i)))]) [0..<?n] ?zeros)
              (fold (\<lambda>i f. f[i := Num (sum_list (window lastK amounts i)
                                        / of_nat (length (window lastK amounts i)))]) [0..<?n] ?zeros)
              (fold (\<lambda>i f. f[i := Num (Max (set (window lastK amounts i)))]) [0..<?n] ?zeros))"
    by (simp add: prevTxFeatures_def idx client_frame_eq [symmetric])
  show ?thesis
    unfolding run
    by (rule exI, rule conjI, rule refl)
      (simp add: features_of_client_frame_with fold_update_nth window_features_def Let_def)
qed

theorem prevTxFeatures_client_frame_witness:
  "(0::nat) < 7 \<and>
   (\<exists>d. prevTxFeatures (client_frame [10, 20]) 7 = Inr d \<and>
      map (features_of d) [0..<length [10, 20::rat]]
        = [[Num 10, Num 10, Num 10], [Num 10, Num 15, Num 20]])"
proof -
  have pos: "(0::nat) < 7" by simp
  have "map (window_features 7 [10, 20]) [0..<length [10, 20::rat]]
      = [[Num 10, Num 10, Num 10], [Num 10, Num 15, Num 20]]"
    by (simp add: window_features_def window_def tail_def Let_def upt_rec [of 0 "2::nat"]
        upt_rec [of _ "2::nat"])
  with prevTxFeatures_client_frame [OF pos, of "[10, 20]"] pos show ?thesis
    by (simp only: simp_thms)
qed

section \<open>When the constructor of Datasets returns\<close>

text \<open>
  \<open>Datasets(data, test_size)\<close> returns (raises nothing) when the frame has the four
  columns to drop, \<open>previousTxType\<close> and \<open>fraudulentTx\<close>, \<open>test_size\<close> is strictly between 0
  and 1, and \<open>ceil(test_size * n)\<close> is less than the number \<open>n\<close> of rows.
\<close>

theorem Datasets_init_returns:
  assumes "set [''data_chunk'', ''txOrder'', ''fromId'', ''toId'', ''previousTxType'',
                ''fraudulentTx''] \<subseteq> set (columns (h ! input))"
    and "0 < test_size" and "test_size < 1"
    and "nat \<lceil>test_size * of_nat (length (df_index (h ! input)))\<rceil> < length (df_index (h ! input))"
  shows "\<exists>h' ds. Datasets_init permutation h input test_size = Inr (h', ds)"
  using assms by (rule Datasets_init_succeeds)

theorem Datasets_init_returns_witness:
  "\<exists>h' ds. Datasets_init example_permutation [example_transactions] 0 (1 / 4) = Inr (h', ds)"
  by (rule Datasets_init_returns) (simp_all add: example_transactions_def columns_def)

end
